theory Spec2Isabelle
  imports Main "HOL-Library.Char_ord" "HOL-Library.List_Lexorder" "HOL-Library.Sublist"
begin

section \<open>The integration agent: data model\<close>

text \<open>
  The repository holds two variants of one agent: \<^verbatim>\<open>src/unnamed/part_000\<close> (cursor file,
  request validation, locking id allocation) and \<^verbatim>\<open>src/agente.js\<close> (no cursor, a sliding
  window, no validation). Both are embedded; a definition whose name ends in
  \<open>_agente\<close> is the one of \<^verbatim>\<open>src/agente.js\<close>, every other one is \<^verbatim>\<open>part_000\<close>'s.

  Instants (JavaScript \<^verbatim>\<open>Date\<close> time values, SQL \<^verbatim>\<open>DATA_ALTERACAO\<close>, \<^verbatim>\<open>GETDATE()\<close>) are
  integers: milliseconds on one time line. Strings are lists of code units, compared
  code unit by code unit (the collation of the store is not modelled). The store
  executes every statement it is sent, unless said otherwise where the statement is
  modelled.
\<close>

type_synonym timestamp = int

subsection \<open>JavaScript values read from the cursor file\<close>

text \<open>A date object is invalid or holds a time value. A parsed JSON value is one of the
  six kinds of JSON (numbers are integers here); an object lists its properties, each
  key once. \<open>JUndefined\<close> is what reading a property yields that is not there.\<close>

datatype js_date = Invalid_Date | Date timestamp

datatype js_value =
    JUndefined
  | JNull
  | JBoolean bool
  | JNumber int
  | JString string
  | JArray "js_value list"
  | JObject "(string \<times> js_value) list"

text \<open>What a \<^verbatim>\<open>catch (err)\<close> of the program can receive.\<close>

datatype exn =
    Error string            \<comment> \<open>\<^verbatim>\<open>throw new Error(message)\<close>\<close>
  | TypeError_property      \<comment> \<open>a property read on \<^verbatim>\<open>undefined\<close> or \<^verbatim>\<open>null\<close>\<close>
  | TypeError_not_iterable  \<comment> \<open>\<^verbatim>\<open>for (... of undefined)\<close>\<close>
  | Int_out_of_range        \<comment> \<open>a value bound as \<^verbatim>\<open>sql.Int\<close> outside 32 bits\<close>
  | Invalid_number          \<comment> \<open>a value the driver refuses as \<^verbatim>\<open>sql.Money\<close> or \<^verbatim>\<open>sql.Float\<close>\<close>
  | Query_failed            \<comment> \<open>the store rejected or lost a query\<close>

text \<open>
  The cursor file as \<^verbatim>\<open>getLastSyncTime\<close> meets it: missing (\<^verbatim>\<open>existsSync\<close> is false),
  present but \<^verbatim>\<open>readFileSync\<close> raises, present with a text \<^verbatim>\<open>JSON.parse\<close> rejects, or
  present with a text that parses to a value.
\<close>

datatype cursor_file = No_file | Unreadable | Not_JSON | Doc js_value

text \<open>
  \<^verbatim>\<open>writeFileSync\<close> either replaces the contents or raises and leaves the file in a state
  the file system chooses.
\<close>

datatype fs_write = Write_ok | Write_raises cursor_file

subsection \<open>Tables of the store\<close>

record produto =
  P_CODIGO :: int
  P_NOME :: string
  P_CBARRA :: "string option"      \<comment> \<open>nullable: the queries test \<^verbatim>\<open>IS NOT NULL\<close>\<close>
  P_DATA_ALTERACAO :: timestamp
  P_PCO_VENDA :: int               \<comment> \<open>the catalog price, in the smallest money unit\<close>

record prodloja =
  L_CODIGO :: int
  L_EST_ATUAL :: int
  L_PCO_VENDA :: int

text \<open>
  An order header and an order line hold the values the store receives. Quantities,
  prices and totals are of a type \<open>'s\<close>: what the driver makes of a JavaScript number
  bound as \<^verbatim>\<open>sql.Money\<close> or \<^verbatim>\<open>sql.Float\<close>.
\<close>

record 's orcperson =
  O_CODIGO :: int
  O_CODLOJA :: int
  O_EMISSAO :: timestamp
  O_NOME :: string
  O_CODVENDEDOR :: int
  O_TOTALBRUTO :: 's
  O_TOTALLIQUIDO :: 's
  O_OBSERVACAO :: string
  O_NOMEUSUARIO :: string
  O_SEQUENCIA :: int

record 's orcpersoni =
  I_CODIGOI :: int
  I_CODPRODUTO :: int
  I_DESCRICAO :: string
  I_QUANTIDADE :: 's
  I_UNITARIO :: 's
  I_VLTOTAL :: 's
  I_DATA :: timestamp
  I_ITEM :: nat

record 's store =
  PRODUTOS :: "produto list"
  PRODLOJAS :: "prodloja list"
  ORCPERSON :: "'s orcperson list"
  ORCPERSONI :: "'s orcpersoni list"

text \<open>\<^verbatim>\<open>!pool || !pool.connected\<close>: \<open>None\<close> is the unset variable, \<open>Some c\<close> a pool whose
  \<^verbatim>\<open>connected\<close> is \<open>c\<close>.\<close>

definition pool_ready :: "bool option \<Rightarrow> bool" where
  "pool_ready pool = (case pool of None \<Rightarrow> False | Some c \<Rightarrow> c)"

section \<open>The cursor (part\_000, lines 39 to 57)\<close>

text \<open>\<^verbatim>\<open>data.lastSync\<close> on the parsed document.\<close>

fun get_lastSync :: "js_value \<Rightarrow> exn + js_value" where
  "get_lastSync JNull = Inl TypeError_property"
| "get_lastSync JUndefined = Inl TypeError_property"
| "get_lastSync (JObject kvs) =
     Inr (case map_of kvs ''lastSync'' of None \<Rightarrow> JUndefined | Some v \<Rightarrow> v)"
| "get_lastSync _ = Inr JUndefined"

text \<open>
  \<^verbatim>\<open>new Date(v)\<close>. \<^verbatim>\<open>undefined\<close> converts to NaN, \<^verbatim>\<open>null\<close> and booleans to numbers, a
  number is clipped to the range of time values. A string goes through \<^verbatim>\<open>Date.parse\<close>,
  an array or object through \<^verbatim>\<open>ToPrimitive\<close> and \<^verbatim>\<open>Date.parse\<close>: library code, the
  parameter \<open>parse\<close>.
\<close>

definition new_Date :: "(js_value \<Rightarrow> js_date) \<Rightarrow> js_value \<Rightarrow> js_date" where
  "new_Date parse v =
     (case v of
        JUndefined \<Rightarrow> Invalid_Date
      | JNull \<Rightarrow> Date 0
      | JBoolean b \<Rightarrow> Date (if b then 1 else 0)
      | JNumber n \<Rightarrow> (if \<bar>n\<bar> \<le> 8640000000000000 then Date n else Invalid_Date)
      | _ \<Rightarrow> parse v)"

definition getLastSyncTime :: "(js_value \<Rightarrow> js_date) \<Rightarrow> cursor_file \<Rightarrow> timestamp \<Rightarrow> js_date" where
  "getLastSyncTime parse file now =
     (case file of
        Doc data \<Rightarrow>
          (case get_lastSync data of
             Inr v \<Rightarrow> new_Date parse v
           | Inl err \<Rightarrow> Date (now - 60000))
      | _ \<Rightarrow> Date (now - 60000))"

text \<open>The document \<^verbatim>\<open>JSON.stringify({ lastSync: date.toISOString() })\<close>; \<^verbatim>\<open>toISOString\<close> is
  library code, a parameter.\<close>

definition cursor_doc :: "(timestamp \<Rightarrow> string) \<Rightarrow> timestamp \<Rightarrow> cursor_file" where
  "cursor_doc toISOString t = Doc (JObject [(''lastSync'', JString (toISOString t))])"

definition updateLastSyncTime ::
  "(timestamp \<Rightarrow> string) \<Rightarrow> fs_write \<Rightarrow> timestamp \<Rightarrow> cursor_file \<Rightarrow> cursor_file" where
  "updateLastSyncTime toISOString w date file =
     (case w of Write_ok \<Rightarrow> cursor_doc toISOString date | Write_raises left \<Rightarrow> left)"

section \<open>Change detection\<close>

record sync_row =
  row_sku :: string
  row_name :: string
  total_stock :: int
  price :: int

text \<open>\<^verbatim>\<open>FROM PRODUTOS P INNER JOIN PRODLOJAS L ON P.CODIGO = L.CODIGO\<close>.\<close>

definition joined :: "'s store \<Rightarrow> (produto \<times> prodloja) list" where
  "joined db = [(p, l). p \<leftarrow> PRODUTOS db, l \<leftarrow> PRODLOJAS db, P_CODIGO p = L_CODIGO l]"

text \<open>\<^verbatim>\<open>P.CBARRA IS NOT NULL AND P.CBARRA <> ''\<close>.\<close>

definition has_sku :: "produto \<Rightarrow> bool" where
  "has_sku p = (P_CBARRA p \<noteq> None \<and> P_CBARRA p \<noteq> Some [])"

text \<open>\<^verbatim>\<open>CASE WHEN L.EST_ATUAL < 0 THEN 0 ELSE L.EST_ATUAL END\<close>.\<close>

definition clamped :: "prodloja \<Rightarrow> int" where
  "clamped l = (if L_EST_ATUAL l < 0 then 0 else L_EST_ATUAL l)"

text \<open>One group of \<^verbatim>\<open>GROUP BY P.CBARRA\<close> and its aggregates; a group has a row.\<close>

fun aggregate :: "string \<Rightarrow> (produto \<times> prodloja) list \<Rightarrow> sync_row list" where
  "aggregate k [] = []"
| "aggregate k (g # gs) =
     [\<lparr>row_sku = k,
       row_name = fold max (map (\<lambda>(p, l). P_NOME p) gs) (P_NOME (fst g)),
       total_stock = sum_list (map (\<lambda>(p, l). clamped l) (g # gs)),
       price = fold max (map (\<lambda>(p, l). L_PCO_VENDA l) gs) (L_PCO_VENDA (snd g))\<rparr>]"

definition skus_of :: "(produto \<times> prodloja) list \<Rightarrow> string list" where
  "skus_of rows = [k. (p, l) \<leftarrow> rows, k \<leftarrow> (case P_CBARRA p of None \<Rightarrow> [] | Some k \<Rightarrow> [k])]"

definition group_by_sku :: "(produto \<times> prodloja) list \<Rightarrow> sync_row list" where
  "group_by_sku rows =
     concat (map (\<lambda>k. aggregate k (filter (\<lambda>(p, l). P_CBARRA p = Some k) rows))
                 (remdups (skus_of rows)))"

text \<open>part\_000, lines 94 to 106: \<^verbatim>\<open>WHERE P.DATA_ALTERACAO > @lastCheck AND ...\<close>.\<close>

definition changed_rows :: "timestamp \<Rightarrow> 's store \<Rightarrow> (produto \<times> prodloja) list" where
  "changed_rows lastCheck db =
     filter (\<lambda>(p, l). lastCheck < P_DATA_ALTERACAO p \<and> has_sku p) (joined db)"

definition detect :: "timestamp \<Rightarrow> 's store \<Rightarrow> sync_row list" where
  "detect lastCheck db = group_by_sku (changed_rows lastCheck db)"

text \<open>agente.js, lines 39 to 51:
  \<^verbatim>\<open>WHERE P.DATA_ALTERACAO >= DATEADD(second, -5, GETDATE()) AND ...\<close>; \<open>getdate\<close> is the
  store's clock when the query runs.\<close>

definition window_rows :: "timestamp \<Rightarrow> 's store \<Rightarrow> (produto \<times> prodloja) list" where
  "window_rows getdate db =
     filter (\<lambda>(p, l). getdate - 5000 \<le> P_DATA_ALTERACAO p \<and> has_sku p) (joined db)"

definition detect_agente :: "timestamp \<Rightarrow> 's store \<Rightarrow> sync_row list" where
  "detect_agente getdate db = group_by_sku (window_rows getdate db)"

text \<open>
  The contract of the detector in the specification's words: a product is a row of the
  product master joined to at least one stock row; it has changed since \<open>since\<close> when
  its modification instant is strictly greater; its sku is present and not empty.
\<close>

definition changed_since :: "timestamp \<Rightarrow> 's store \<Rightarrow> string \<Rightarrow> bool" where
  "changed_since since db k =
     (k \<noteq> [] \<and>
      (\<exists>p \<in> set (PRODUTOS db). P_CBARRA p = Some k \<and> since < P_DATA_ALTERACAO p \<and>
         (\<exists>l \<in> set (PRODLOJAS db). L_CODIGO l = P_CODIGO p)))"

text \<open>The same without the stock rows: a row of the product master alone, changed since
  \<open>since\<close>, its sku present and not empty.\<close>

definition master_changed_since :: "timestamp \<Rightarrow> 's store \<Rightarrow> string \<Rightarrow> bool" where
  "master_changed_since since db k =
     (k \<noteq> [] \<and> (\<exists>p \<in> set (PRODUTOS db). P_CBARRA p = Some k \<and> since < P_DATA_ALTERACAO p))"

text \<open>What agente.js selects instead: modified at or after the store's clock minus five
  seconds.\<close>

definition changed_in_window :: "timestamp \<Rightarrow> 's store \<Rightarrow> string \<Rightarrow> bool" where
  "changed_in_window getdate db k =
     (k \<noteq> [] \<and>
      (\<exists>p \<in> set (PRODUTOS db). P_CBARRA p = Some k \<and> getdate - 5000 \<le> P_DATA_ALTERACAO p \<and>
         (\<exists>l \<in> set (PRODLOJAS db). L_CODIGO l = P_CODIGO p)))"

text \<open>The per-location stock values behind the row of sku \<open>k\<close>.\<close>

definition location_stocks :: "string \<Rightarrow> (produto \<times> prodloja) list \<Rightarrow> int list" where
  "location_stocks k rows = [L_EST_ATUAL l. (p, l) \<leftarrow> rows, P_CBARRA p = Some k]"

section \<open>The sync cycle\<close>

subsection \<open>part\_000, \<^verbatim>\<open>monitorarMudancas\<close> (lines 87 to 132)\<close>

text \<open>
  The function is \<^verbatim>\<open>async\<close>: it runs to its first \<^verbatim>\<open>await\<close> (the query), is resumed
  with the query's outcome, runs to the second \<^verbatim>\<open>await\<close> (the POST) and is resumed with
  the POST's outcome. Each of the three segments is one definition.

  Segment 1, lines 88 to 91 and the issue of the query: the guard, \<^verbatim>\<open>lastCheck\<close> and
  \<^verbatim>\<open>newCheckTime\<close>. \<open>None\<close> is the early \<^verbatim>\<open>return\<close>; \<open>clock_read\<close> is \<^verbatim>\<open>Date.now()\<close>
  inside \<^verbatim>\<open>getLastSyncTime\<close>, \<open>clock_start\<close> is \<^verbatim>\<open>new Date()\<close>.
\<close>

definition monitor_enter ::
  "(js_value \<Rightarrow> js_date) \<Rightarrow> bool option \<Rightarrow> cursor_file \<Rightarrow> timestamp \<Rightarrow> timestamp
     \<Rightarrow> (js_date \<times> timestamp) option" where
  "monitor_enter parse pool file clock_read clock_start =
     (if \<not> pool_ready pool then None
      else Some (getLastSyncTime parse file clock_read, clock_start))"

text \<open>
  A date can be bound as \<^verbatim>\<open>sql.DateTime\<close> when its year, in UTC, is from 1753 to 9999:
  from 1753-01-01T00:00:00Z on and before 10000-01-01T00:00:00Z.
\<close>

definition sql_datetime_ok :: "timestamp \<Rightarrow> bool" where
  "sql_datetime_ok t = (- 6847804800000 \<le> t \<and> t < 253402300800000)"

text \<open>
  The query as the store answers it: it raises when the store fails (\<open>fails\<close>) and when
  \<^verbatim>\<open>lastCheck\<close> cannot be bound as \<^verbatim>\<open>sql.DateTime\<close>, being an invalid date or out of range.
\<close>

definition run_query :: "bool \<Rightarrow> js_date \<Rightarrow> 's store \<Rightarrow> exn + sync_row list" where
  "run_query fails lastCheck db =
     (case lastCheck of
        Invalid_Date \<Rightarrow> Inl Query_failed
      | Date t \<Rightarrow>
          if fails \<or> \<not> sql_datetime_ok t then Inl Query_failed else Inr (detect t db))"

text \<open>
  Segment 2, lines 112 to 127 up to the POST, and the \<^verbatim>\<open>catch\<close> for a query that raised.
  The result is the cursor file and, when the batch is not empty, the batch whose POST
  is now awaited.
\<close>

definition monitor_after_query ::
  "(timestamp \<Rightarrow> string) \<Rightarrow> fs_write \<Rightarrow> timestamp \<Rightarrow> exn + sync_row list \<Rightarrow> cursor_file
     \<Rightarrow> cursor_file \<times> sync_row list option" where
  "monitor_after_query toISOString w newCheckTime result file =
     (case result of
        Inl err \<Rightarrow> (file, None)
      | Inr recordset \<Rightarrow>
          if length recordset > 0 then (file, Some recordset)
          else (updateLastSyncTime toISOString w newCheckTime file, None))"

text \<open>Segment 3, lines 123 to 124, and the \<^verbatim>\<open>catch\<close> for a POST that raised (network
  error, timeout, status outside 2xx).\<close>

definition monitor_after_publish ::
  "(timestamp \<Rightarrow> string) \<Rightarrow> fs_write \<Rightarrow> timestamp \<Rightarrow> bool \<Rightarrow> cursor_file \<Rightarrow> cursor_file" where
  "monitor_after_publish toISOString w newCheckTime posted file =
     (if posted then updateLastSyncTime toISOString w newCheckTime file else file)"

text \<open>What the environment does during one cycle.\<close>

record sync_io =
  clock_read :: timestamp
  clock_start :: timestamp
  query_fails :: bool
  publish_ok :: bool
  file_write :: fs_write

text \<open>
  One call run to its end with nothing else in between: the cursor file afterwards and
  the batch handed to \<^verbatim>\<open>axios.post\<close>, if the call got that far.
\<close>

definition monitorarMudancas ::
  "(js_value \<Rightarrow> js_date) \<Rightarrow> (timestamp \<Rightarrow> string) \<Rightarrow> sync_io \<Rightarrow> bool option \<Rightarrow> 's store
     \<Rightarrow> cursor_file \<Rightarrow> cursor_file \<times> sync_row list option" where
  "monitorarMudancas parse toISOString io pool db file =
     (case monitor_enter parse pool file (clock_read io) (clock_start io) of
        None \<Rightarrow> (file, None)
      | Some (lastCheck, newCheckTime) \<Rightarrow>
          (case monitor_after_query toISOString (file_write io) newCheckTime
                  (run_query (query_fails io) lastCheck db) file of
             (file', None) \<Rightarrow> (file', None)
           | (file', Some batch) \<Rightarrow>
               (monitor_after_publish toISOString (file_write io) newCheckTime
                  (publish_ok io) file', Some batch)))"

subsection \<open>The timer: \<^verbatim>\<open>setInterval(monitorarMudancas, 5000)\<close> (part\_000, line 248)\<close>

text \<open>
  The timer calls the function every five seconds whether or not an earlier call has
  finished. The agent's state therefore holds the calls suspended at an \<^verbatim>\<open>await\<close>, each
  with the locals it captured.
\<close>

datatype suspended =
    Await_query js_date timestamp
  | Await_publish timestamp "sync_row list"

record 's agent =
  the_pool :: "bool option"
  the_cursor :: cursor_file
  the_db :: "'s store"
  in_flight :: "suspended list"

datatype event =
    Tick timestamp timestamp         \<comment> \<open>the timer fires; the two clock readings\<close>
  | Query_returns nat bool fs_write  \<comment> \<open>the query of call \<open>k\<close> settles\<close>
  | Publish_returns nat bool fs_write \<comment> \<open>the POST of call \<open>k\<close> settles\<close>

definition remove_nth :: "nat \<Rightarrow> 'a list \<Rightarrow> 'a list" where
  "remove_nth k xs = take k xs @ drop (Suc k) xs"

fun step ::
  "(js_value \<Rightarrow> js_date) \<Rightarrow> (timestamp \<Rightarrow> string) \<Rightarrow> 's agent \<Rightarrow> event \<Rightarrow> 's agent" where
  "step parse toISOString s (Tick t_read t_start) =
     (case monitor_enter parse (the_pool s) (the_cursor s) t_read t_start of
        None \<Rightarrow> s
      | Some (lastCheck, newCheckTime) \<Rightarrow>
          s\<lparr>in_flight := in_flight s @ [Await_query lastCheck newCheckTime]\<rparr>)"
| "step parse toISOString s (Query_returns k fails w) =
     (if k < length (in_flight s) then
        (case in_flight s ! k of
           Await_query lastCheck newCheckTime \<Rightarrow>
             (case monitor_after_query toISOString w newCheckTime
                     (run_query fails lastCheck (the_db s)) (the_cursor s) of
                (file', None) \<Rightarrow>
                  s\<lparr>the_cursor := file', in_flight := remove_nth k (in_flight s)\<rparr>
              | (file', Some batch) \<Rightarrow>
                  s\<lparr>the_cursor := file',
                    in_flight := (in_flight s)[k := Await_publish newCheckTime batch]\<rparr>)
         | Await_publish newCheckTime batch \<Rightarrow> s)
      else s)"
| "step parse toISOString s (Publish_returns k posted w) =
     (if k < length (in_flight s) then
        (case in_flight s ! k of
           Await_publish newCheckTime batch \<Rightarrow>
             s\<lparr>the_cursor := monitor_after_publish toISOString w newCheckTime posted (the_cursor s),
               in_flight := remove_nth k (in_flight s)\<rparr>
         | Await_query lastCheck newCheckTime \<Rightarrow> s)
      else s)"

definition run ::
  "(js_value \<Rightarrow> js_date) \<Rightarrow> (timestamp \<Rightarrow> string) \<Rightarrow> 's agent \<Rightarrow> event list \<Rightarrow> 's agent" where
  "run parse toISOString s evs = foldl (step parse toISOString) s evs"

text \<open>The interval of the timer and the timeout of the POST (part\_000, lines 248 and
  120; agente.js, lines 155 and 59), in milliseconds.\<close>

definition tick_interval :: nat where "tick_interval = 5000"
definition publish_timeout :: nat where "publish_timeout = 10000"
definition tick_interval_agente :: nat where "tick_interval_agente = 2000"
definition publish_timeout_agente :: nat where "publish_timeout_agente = 3000"

subsection \<open>agente.js, \<^verbatim>\<open>monitorarMudancas\<close> (lines 36 to 67) and its timer (line 155)\<close>

datatype suspended_agente = Agente_query | Agente_publish "sync_row list"

text \<open>The timer fires: the guard of line 37, then the query is issued.\<close>

definition tick_agente :: "bool option \<Rightarrow> suspended_agente list \<Rightarrow> suspended_agente list" where
  "tick_agente pool calls = (if \<not> pool_ready pool then calls else calls @ [Agente_query])"

text \<open>One call run to its end: the batch handed to \<^verbatim>\<open>axios.post\<close>, if any. Every
  error is swallowed by the \<^verbatim>\<open>catch\<close>.\<close>

definition monitorarMudancas_agente ::
  "bool option \<Rightarrow> bool \<Rightarrow> timestamp \<Rightarrow> 's store \<Rightarrow> sync_row list option" where
  "monitorarMudancas_agente pool fails getdate db =
     (if \<not> pool_ready pool then None
      else if fails then None
      else (let recordset = detect_agente getdate db
            in if length recordset > 0 then Some recordset else None))"

section \<open>Order ingestion: \<^verbatim>\<open>POST /criar-pedido\<close>\<close>

subsection \<open>Requests and responses\<close>

text \<open>
  \<^verbatim>\<open>request.body\<close> is \<open>None\<close> when the request has no body or its body is \<^verbatim>\<open>null\<close>, else
  the body \<^verbatim>\<open>{ cliente: { nome }, itens: [{ sku, qtd, preco }] }\<close>. In a body a key is
  \<open>None\<close> when it is absent or holds a value that \<^verbatim>\<open>!\<close> takes for false (a body that is
  no object has neither key); \<^verbatim>\<open>cliente\<close>, when present, is an object whose \<^verbatim>\<open>nome\<close>,
  when present, is a string, and \<^verbatim>\<open>itens\<close>, when present, is an array of objects with
  a string \<^verbatim>\<open>sku\<close>. Quantities and prices are JavaScript numbers, of a type \<open>'n\<close> about
  which nothing is assumed but that it has \<open>0\<close>, \<open>+\<close> and \<open>*\<close>. The first loop of the
  handler adds \<^verbatim>\<open>codigoInterno\<close> and \<^verbatim>\<open>descricao\<close> to each item.
\<close>

record 'n item =
  sku :: string
  qtd :: 'n
  preco :: 'n

record 'n item_resolved = "'n item" +
  codigoInterno :: int
  descricao :: string

record cliente_obj =
  nome :: "string option"

record 'n pedido =
  cliente :: "cliente_obj option"
  itens :: "'n item list option"

text \<open>
  The statements a request sends to the store, in order, each with what tells it from
  the other variant's: the columns and the parameter of a product lookup, whether the
  allocation read carries \<^verbatim>\<open>WITH (UPDLOCK, HOLDLOCK)\<close>, the row an \<^verbatim>\<open>INSERT\<close> gives by
  its literals and parameters.
\<close>

datatype 's db_op =
    Begin
  | Select_produto "string list" string
  | Select_ids bool
  | Insert_orcperson "'s orcperson"
  | Insert_orcpersoni "'s orcpersoni"
  | Commit
  | Rollback

text \<open>
  A response is a status and a body: \<^verbatim>\<open>{ error, detalhe }\<close> (\<^verbatim>\<open>detalhe\<close> is the message
  of the error caught, kept here as the error itself), \<^verbatim>\<open>{ success: true, pedidoId }\<close>,
  or what the framework answers, with status 500, for an error that leaves the
  handler.
\<close>

datatype reply_body = Erro string "exn option" | Sucesso int | Erro_nao_tratado exn

datatype response = Reply nat reply_body

text \<open>
  The outcome of a request: the response, the store as committed, the statements sent.
  Rows written by a transaction that does not commit, rolled back or left open, are no
  part of the store. The store is taken to accept every row it is sent: the widths of
  the columns and the constraints of the tables are not in the repository.
\<close>

record 's outcome =
  reply :: response
  db_after :: "'s store"
  ops :: "'s db_op list"

text \<open>
  The driver's conversion of a JavaScript number bound as \<^verbatim>\<open>sql.Money\<close> or \<^verbatim>\<open>sql.Float\<close>:
  \<open>None\<close> when it refuses the value (not a number, out of range), and then the
  statement raises; else the value the store receives (for \<^verbatim>\<open>sql.Money\<close> one of four
  decimal places). Library code, taken as parameters.
\<close>

record ('n, 's) driver =
  sql_Money :: "'n \<Rightarrow> 's option"
  sql_Float :: "'n \<Rightarrow> 's option"

subsection \<open>The steps shared by both variants\<close>

text \<open>
  The first loop: \<^verbatim>\<open>SELECT TOP 1 cols FROM PRODUTOS WHERE CBARRA = @sku\<close> for each item,
  in request order, until one finds no row; \<open>msg\<close> builds the message of the error
  thrown. The result is the statements sent and either the error or the items resolved.
\<close>

fun resolve ::
  "string list \<Rightarrow> (string \<Rightarrow> string) \<Rightarrow> produto list \<Rightarrow> 'n item list
     \<Rightarrow> 's db_op list \<times> (exn + 'n item_resolved list)" where
  "resolve cols msg ps [] = ([], Inr [])"
| "resolve cols msg ps (i # rest) =
     (case find (\<lambda>p. P_CBARRA p = Some (sku i)) ps of
        None \<Rightarrow> ([Select_produto cols (sku i)], Inl (Error (msg (sku i))))
      | Some row \<Rightarrow>
          (case resolve cols msg ps rest of
             (sel, Inl err) \<Rightarrow> (Select_produto cols (sku i) # sel, Inl err)
           | (sel, Inr found) \<Rightarrow>
               (Select_produto cols (sku i) # sel,
                Inr (\<lparr>sku = sku i, qtd = qtd i, preco = preco i,
                      codigoInterno = P_CODIGO row, descricao = P_NOME row\<rparr> # found))))"

text \<open>\<^verbatim>\<open>ISNULL(MAX(col), 0)\<close>.\<close>

definition max_or_zero :: "int list \<Rightarrow> int" where
  "max_or_zero xs = (case xs of [] \<Rightarrow> 0 | x # rest \<Rightarrow> fold max rest x)"

text \<open>The allocation read: \<^verbatim>\<open>proximoId\<close> and \<^verbatim>\<open>proximaSeq\<close>.\<close>

definition next_ids :: "'s store \<Rightarrow> int \<times> int" where
  "next_ids db =
     (max_or_zero (map O_CODIGO (ORCPERSON db)) + 1,
      max_or_zero (map O_SEQUENCIA (ORCPERSON db)) + 1)"

text \<open>
  Both values are bound as \<^verbatim>\<open>sql.Int\<close>. One outside 32 bits is refused (by the store's
  integer addition or by the driver): the transaction raises after the allocation read
  and before a row is written.
\<close>

definition sql_int_ok :: "int \<Rightarrow> bool" where
  "sql_int_ok n = (- 2147483648 \<le> n \<and> n \<le> 2147483647)"

text \<open>\<^verbatim>\<open>itens.reduce((acc, i) => acc + (i.qtd * i.preco), 0)\<close>.\<close>

definition total_pedido :: "('n::{zero,plus,times}, 'z) item_scheme list \<Rightarrow> 'n" where
  "total_pedido is = foldl (\<lambda>acc i. acc + qtd i * preco i) 0 is"

text \<open>The header row; \<open>bruto\<close> is what the driver made of the total, \<open>emissao\<close> is
  \<^verbatim>\<open>GETDATE()\<close> when the \<^verbatim>\<open>INSERT\<close> runs.\<close>

definition header_row ::
  "int \<Rightarrow> int \<Rightarrow> string \<Rightarrow> 's \<Rightarrow> string \<Rightarrow> timestamp \<Rightarrow> 's orcperson" where
  "header_row novoId novaSeq nome_cliente bruto usuario emissao =
     \<lparr>O_CODIGO = novoId, O_CODLOJA = 1, O_EMISSAO = emissao, O_NOME = nome_cliente,
      O_CODVENDEDOR = 1, O_TOTALBRUTO = bruto, O_TOTALLIQUIDO = bruto,
      O_OBSERVACAO = ''PEDIDO VIA SITE'', O_NOMEUSUARIO = usuario, O_SEQUENCIA = novaSeq\<rparr>"

text \<open>
  The second loop: one \<^verbatim>\<open>INSERT\<close> per item, \<^verbatim>\<open>contadorItem++\<close> from \<open>n\<close>, until the driver
  refuses a parameter (the product code as \<^verbatim>\<open>sql.Int\<close>, the quantity as \<^verbatim>\<open>sql.Float\<close>,
  the unit price and the line total as \<^verbatim>\<open>sql.Money\<close>); \<open>getdate k\<close> is \<^verbatim>\<open>GETDATE()\<close> when
  the \<^verbatim>\<open>INSERT\<close> of line \<open>k\<close> runs (\<open>0\<close> for the header). The result is the rows written
  and the error, if one was raised.
\<close>

fun insert_itens ::
  "('n::times, 's) driver \<Rightarrow> int \<Rightarrow> (nat \<Rightarrow> timestamp) \<Rightarrow> nat \<Rightarrow> 'n item_resolved list
     \<Rightarrow> 's orcpersoni list \<times> exn option" where
  "insert_itens drv novoId getdate n [] = ([], None)"
| "insert_itens drv novoId getdate n (i # rest) =
     (if \<not> sql_int_ok (codigoInterno i) then ([], Some Int_out_of_range)
      else
        (case sql_Float drv (qtd i) of
           None \<Rightarrow> ([], Some Invalid_number)
         | Some quantidade \<Rightarrow>
             (case sql_Money drv (preco i) of
                None \<Rightarrow> ([], Some Invalid_number)
              | Some unitario \<Rightarrow>
                  (case sql_Money drv (qtd i * preco i) of
                     None \<Rightarrow> ([], Some Invalid_number)
                   | Some vltotal \<Rightarrow>
                       (case insert_itens drv novoId getdate (Suc n) rest of
                          (rows, err) \<Rightarrow>
                            (\<lparr>I_CODIGOI = novoId, I_CODPRODUTO = codigoInterno i,
                              I_DESCRICAO = descricao i, I_QUANTIDADE = quantidade,
                              I_UNITARIO = unitario, I_VLTOTAL = vltotal,
                              I_DATA = getdate n, I_ITEM = n\<rparr> # rows, err))))))"

subsection \<open>part\_000 (lines 160 to 239)\<close>

definition nao_encontrado :: "string \<Rightarrow> string" where
  "nao_encontrado s = ''Produto n'' @ [CHR 0xE3] @ ''o encontrado ou inativo: '' @ s"

text \<open>\<^verbatim>\<open>cliente.nome ? cliente.nome.substring(0, 50) : 'CLIENTE WEB'\<close>.\<close>

definition nome_pedido :: "cliente_obj \<Rightarrow> string" where
  "nome_pedido c =
     (case nome c of
        None \<Rightarrow> ''CLIENTE WEB''
      | Some n \<Rightarrow> if n = [] then ''CLIENTE WEB'' else take 50 n)"

text \<open>
  The body of the \<^verbatim>\<open>try\<close>, lines 172 to 226 before the commit: the statements sent and
  either the error thrown or the store as the transaction sees it and the new id.
\<close>

definition pedido_tx ::
  "('n::{zero,plus,times}, 's) driver \<Rightarrow> (nat \<Rightarrow> timestamp) \<Rightarrow> 's store \<Rightarrow> cliente_obj
     \<Rightarrow> 'n item list \<Rightarrow> 's db_op list \<times> (exn + 's store \<times> int)" where
  "pedido_tx drv getdate db c is =
     (case resolve [''CODIGO'', ''NOME'', ''PCO_VENDA''] nao_encontrado (PRODUTOS db) is of
        (sel, Inl err) \<Rightarrow> (Begin # sel, Inl err)
      | (sel, Inr found) \<Rightarrow>
          (case next_ids db of
             (novoId, novaSeq) \<Rightarrow>
               if \<not> (sql_int_ok novoId \<and> sql_int_ok novaSeq)
               then (Begin # sel @ [Select_ids True], Inl Int_out_of_range)
               else
                 (case sql_Money drv (total_pedido found) of
                    None \<Rightarrow> (Begin # sel @ [Select_ids True], Inl Invalid_number)
                  | Some bruto \<Rightarrow>
                      (case insert_itens drv novoId getdate 1 found of
                         (rows, Some err) \<Rightarrow>
                           (Begin # sel @
                              [Select_ids True,
                               Insert_orcperson
                                 (header_row novoId novaSeq (nome_pedido c) bruto
                                    ''INTEGRACAO'' (getdate 0))] @
                              map Insert_orcpersoni rows,
                            Inl err)
                       | (rows, None) \<Rightarrow>
                           (Begin # sel @
                              [Select_ids True,
                               Insert_orcperson
                                 (header_row novoId novaSeq (nome_pedido c) bruto
                                    ''INTEGRACAO'' (getdate 0))] @
                              map Insert_orcpersoni rows,
                            Inr (db\<lparr>ORCPERSON := ORCPERSON db @
                                       [header_row novoId novaSeq (nome_pedido c) bruto
                                          ''INTEGRACAO'' (getdate 0)],
                                    ORCPERSONI := ORCPERSONI db @ rows\<rparr>,
                                 novoId))))))"

definition dados_invalidos :: "'s store \<Rightarrow> 's outcome" where
  "dados_invalidos db =
     \<lparr>reply = Reply 400 (Erro (''Dados inv'' @ [CHR 0xE1] @ ''lidos (cliente ou itens ausentes)'') None),
      db_after = db, ops = []\<rparr>"

definition banco_offline :: "'s store \<Rightarrow> 's outcome" where
  "banco_offline db = \<lparr>reply = Reply 503 (Erro ''Banco Offline'' None), db_after = db, ops = []\<rparr>"

text \<open>
  Line 163, \<^verbatim>\<open>const { cliente, itens } = request.body\<close>, stands before the \<^verbatim>\<open>try\<close>: without
  a body it raises and the framework answers.
\<close>

definition sem_corpo :: "'s store \<Rightarrow> 's outcome" where
  "sem_corpo db =
     \<lparr>reply = Reply 500 (Erro_nao_tratado TypeError_property), db_after = db, ops = []\<rparr>"

text \<open>
  The handler. In the \<^verbatim>\<open>catch\<close>, \<^verbatim>\<open>ROLLBACK\<close> is sent only if \<^verbatim>\<open>transaction.active\<close> holds, a
  property read from the library's object: the parameter \<open>active\<close>.
\<close>

definition criar_pedido ::
  "('n::{zero,plus,times}, 's) driver \<Rightarrow> bool \<Rightarrow> (nat \<Rightarrow> timestamp) \<Rightarrow> bool option \<Rightarrow> 's store
     \<Rightarrow> 'n pedido option \<Rightarrow> 's outcome" where
  "criar_pedido drv active getdate pool db request_body =
     (if \<not> pool_ready pool then banco_offline db
      else
        (case request_body of
           None \<Rightarrow> sem_corpo db
         | Some body \<Rightarrow>
             (case cliente body of
                None \<Rightarrow> dados_invalidos db
              | Some c \<Rightarrow>
                  (case itens body of
                     None \<Rightarrow> dados_invalidos db
                   | Some [] \<Rightarrow> dados_invalidos db
                   | Some (i # rest) \<Rightarrow>
                       (case pedido_tx drv getdate db c (i # rest) of
                          (sent, Inr (db', novoId)) \<Rightarrow>
                            \<lparr>reply = Reply 200 (Sucesso novoId), db_after = db',
                             ops = sent @ [Commit]\<rparr>
                        | (sent, Inl err) \<Rightarrow>
                            \<lparr>reply = Reply 422
                               (Erro (''N'' @ [CHR 0xE3] @ ''o foi poss'' @ [CHR 0xED] @
                                      ''vel processar o pedido'')
                                  (Some err)),
                             db_after = db,
                             ops = sent @ (if active then [Rollback] else [])\<rparr>)))))"

subsection \<open>agente.js (lines 82 to 147)\<close>

definition nao_encontrado_agente :: "string \<Rightarrow> string" where
  "nao_encontrado_agente s = ''Produto n'' @ [CHR 0xE3] @ ''o encontrado: '' @ s"

text \<open>\<^verbatim>\<open>cliente.nome || 'CLIENTE E-COMMERCE'\<close>.\<close>

definition nome_pedido_agente :: "cliente_obj \<Rightarrow> string" where
  "nome_pedido_agente c =
     (case nome c of
        None \<Rightarrow> ''CLIENTE E-COMMERCE''
      | Some n \<Rightarrow> if n = [] then ''CLIENTE E-COMMERCE'' else n)"

text \<open>
  The body of the \<^verbatim>\<open>try\<close>, lines 91 to 136. Nothing is checked beforehand:
  \<^verbatim>\<open>for (let item of itens)\<close> raises when \<^verbatim>\<open>itens\<close> is absent, and \<^verbatim>\<open>cliente.nome\<close>, read
  after the allocation, raises when \<^verbatim>\<open>cliente\<close> is absent.
\<close>

definition pedido_tx_agente ::
  "('n::{zero,plus,times}, 's) driver \<Rightarrow> (nat \<Rightarrow> timestamp) \<Rightarrow> 's store \<Rightarrow> 'n pedido
     \<Rightarrow> 's db_op list \<times> (exn + 's store \<times> int)" where
  "pedido_tx_agente drv getdate db body =
     (case itens body of
        None \<Rightarrow> ([Begin], Inl TypeError_not_iterable)
      | Some is \<Rightarrow>
          (case resolve [''CODIGO'', ''NOME''] nao_encontrado_agente (PRODUTOS db) is of
             (sel, Inl err) \<Rightarrow> (Begin # sel, Inl err)
           | (sel, Inr found) \<Rightarrow>
               (case next_ids db of
                  (novoId, novaSeq) \<Rightarrow>
                    if \<not> (sql_int_ok novoId \<and> sql_int_ok novaSeq)
                    then (Begin # sel @ [Select_ids False], Inl Int_out_of_range)
                    else
                      (case cliente body of
                         None \<Rightarrow> (Begin # sel @ [Select_ids False], Inl TypeError_property)
                       | Some c \<Rightarrow>
                           (case sql_Money drv (total_pedido found) of
                              None \<Rightarrow> (Begin # sel @ [Select_ids False], Inl Invalid_number)
                            | Some bruto \<Rightarrow>
                                (case insert_itens drv novoId getdate 1 found of
                                   (rows, Some err) \<Rightarrow>
                                     (Begin # sel @
                                        [Select_ids False,
                                         Insert_orcperson
                                           (header_row novoId novaSeq (nome_pedido_agente c)
                                              bruto ''SITE'' (getdate 0))] @
                                        map Insert_orcpersoni rows,
                                      Inl err)
                                 | (rows, None) \<Rightarrow>
                                     (Begin # sel @
                                        [Select_ids False,
                                         Insert_orcperson
                                           (header_row novoId novaSeq (nome_pedido_agente c)
                                              bruto ''SITE'' (getdate 0))] @
                                        map Insert_orcpersoni rows,
                                      Inr (db\<lparr>ORCPERSON := ORCPERSON db @
                                                 [header_row novoId novaSeq
                                                    (nome_pedido_agente c) bruto ''SITE''
                                                    (getdate 0)],
                                              ORCPERSONI := ORCPERSONI db @ rows\<rparr>,
                                           novoId))))))))"

text \<open>The handler; line 85 destructures \<^verbatim>\<open>request.body\<close> before the \<^verbatim>\<open>try\<close> as well.\<close>

definition criar_pedido_agente ::
  "('n::{zero,plus,times}, 's) driver \<Rightarrow> bool \<Rightarrow> (nat \<Rightarrow> timestamp) \<Rightarrow> bool option \<Rightarrow> 's store
     \<Rightarrow> 'n pedido option \<Rightarrow> 's outcome" where
  "criar_pedido_agente drv active getdate pool db request_body =
     (if \<not> pool_ready pool then banco_offline db
      else
        (case request_body of
           None \<Rightarrow> sem_corpo db
         | Some body \<Rightarrow>
             (case pedido_tx_agente drv getdate db body of
                (sent, Inr (db', novoId)) \<Rightarrow>
                  \<lparr>reply = Reply 200 (Sucesso novoId), db_after = db', ops = sent @ [Commit]\<rparr>
              | (sent, Inl err) \<Rightarrow>
                  \<lparr>reply = Reply 500 (Erro ''Erro ao gravar pedido'' (Some err)),
                   db_after = db,
                   ops = sent @ (if active then [Rollback] else [])\<rparr>)))"

section \<open>Vocabulary of the specification\<close>



fun status :: "response \<Rightarrow> nat" where
  "status (Reply code b) = code"

text \<open>The tables only grow at the end: the rows a request added to a table.\<close>

definition new_headers :: "'s store \<Rightarrow> 's store \<Rightarrow> 's orcperson list" where
  "new_headers db db' = drop (length (ORCPERSON db)) (ORCPERSON db')"

definition new_lines :: "'s store \<Rightarrow> 's store \<Rightarrow> 's orcpersoni list" where
  "new_lines db db' = drop (length (ORCPERSONI db)) (ORCPERSONI db')"

text \<open>A header row with the two columns blanked on which the variants differ.\<close>

definition without_names :: "'s orcperson \<Rightarrow> 's orcperson" where
  "without_names h = h\<lparr>O_NOME := [], O_NOMEUSUARIO := []\<rparr>"


section \<open>Example data\<close>

text \<open>
  A store with five products (one changed long ago, one changed lately, one without a
  sku, one with an empty sku, one without stock rows), the stock rows (one of them
  negative) and one earlier order.
\<close>

definition loja :: "int store" where
  "loja =
     \<lparr>PRODUTOS =
        [\<lparr>P_CODIGO = 1, P_NOME = ''Caneta'', P_CBARRA = Some ''789'',
          P_DATA_ALTERACAO = 1000, P_PCO_VENDA = 250\<rparr>,
         \<lparr>P_CODIGO = 2, P_NOME = ''Lapis'', P_CBARRA = Some ''456'',
          P_DATA_ALTERACAO = 99000, P_PCO_VENDA = 100\<rparr>,
         \<lparr>P_CODIGO = 3, P_NOME = ''Avulso'', P_CBARRA = None,
          P_DATA_ALTERACAO = 99000, P_PCO_VENDA = 10\<rparr>,
         \<lparr>P_CODIGO = 4, P_NOME = ''Vazio'', P_CBARRA = Some [],
          P_DATA_ALTERACAO = 99000, P_PCO_VENDA = 10\<rparr>,
         \<lparr>P_CODIGO = 5, P_NOME = ''Novo'', P_CBARRA = Some ''555'',
          P_DATA_ALTERACAO = 99000, P_PCO_VENDA = 10\<rparr>],
      PRODLOJAS =
        [\<lparr>L_CODIGO = 1, L_EST_ATUAL = - 3, L_PCO_VENDA = 250\<rparr>,
         \<lparr>L_CODIGO = 1, L_EST_ATUAL = 4, L_PCO_VENDA = 260\<rparr>,
         \<lparr>L_CODIGO = 2, L_EST_ATUAL = 10, L_PCO_VENDA = 100\<rparr>,
         \<lparr>L_CODIGO = 3, L_EST_ATUAL = 5, L_PCO_VENDA = 10\<rparr>,
         \<lparr>L_CODIGO = 4, L_EST_ATUAL = 2, L_PCO_VENDA = 10\<rparr>],
      ORCPERSON = [header_row 7 12 ''ANTIGO'' 0 ''BALCAO'' 500],
      ORCPERSONI = []\<rparr>"

text \<open>A driver that hands integers on as they are.\<close>

definition drv_exemplo :: "(int, int) driver" where
  "drv_exemplo = \<lparr>sql_Money = Some, sql_Float = Some\<rparr>"

definition relogio :: "nat \<Rightarrow> timestamp" where
  "relogio k = 200000 + int k"

definition pedido_bom :: "int pedido" where
  "pedido_bom =
     \<lparr>cliente = Some \<lparr>nome = Some ''Joao''\<rparr>,
      itens = Some [\<lparr>sku = ''789'', qtd = 2, preco = 10\<rparr>, \<lparr>sku = ''456'', qtd = 1, preco = 7\<rparr>]\<rparr>"

definition pedido_sku_desconhecido :: "int pedido" where
  "pedido_sku_desconhecido =
     \<lparr>cliente = Some \<lparr>nome = Some ''Joao''\<rparr>,
      itens = Some [\<lparr>sku = ''789'', qtd = 2, preco = 10\<rparr>, \<lparr>sku = ''000'', qtd = 1, preco = 7\<rparr>]\<rparr>"


definition pedido_sem_itens :: "int pedido" where
  "pedido_sem_itens = \<lparr>cliente = Some \<lparr>nome = Some ''Joao''\<rparr>, itens = Some []\<rparr>"

text \<open>\<^verbatim>\<open>toISOString\<close> and \<^verbatim>\<open>Date.parse\<close> at the one instant the examples write, 200001 ms
  after the epoch.\<close>

definition iso_exemplo :: "timestamp \<Rightarrow> string" where
  "iso_exemplo t = ''1970-01-01T00:03:20.001Z''"

definition parse_exemplo :: "js_value \<Rightarrow> js_date" where
  "parse_exemplo v = (if v = JString ''1970-01-01T00:03:20.001Z'' then Date 200001 else Invalid_Date)"

definition io_exemplo :: "bool \<Rightarrow> fs_write \<Rightarrow> sync_io" where
  "io_exemplo posted w =
     \<lparr>clock_read = 200000, clock_start = 200001, query_fails = False,
      publish_ok = posted, file_write = w\<rparr>"

definition agente_parado :: "int agent" where
  "agente_parado = \<lparr>the_pool = Some True, the_cursor = No_file, the_db = loja, in_flight = []\<rparr>"

section \<open>The cursor store\<close>

text \<open>The default is returned when the file is missing, cannot be read, is not JSON,
  or holds \<^verbatim>\<open>null\<close>.\<close>

lemma getLastSyncTime_default:
  "file = No_file \<or> file = Unreadable \<or> file = Not_JSON \<or> file = Doc JNull \<Longrightarrow>
     getLastSyncTime parse file now = Date (now - 60000)"
  by (auto simp: getLastSyncTime_def)

text \<open>A document written by \<^verbatim>\<open>updateLastSyncTime\<close> is read back, as long as
  \<^verbatim>\<open>Date.parse\<close> inverts \<^verbatim>\<open>toISOString\<close> at that instant.\<close>

lemma getLastSyncTime_reads_back:
  "parse (JString (toISOString t)) = Date t \<Longrightarrow>
     getLastSyncTime parse (cursor_doc toISOString t) now = Date t"
  by (simp add: getLastSyncTime_def cursor_doc_def new_Date_def)

text \<open>
  Claim C9. The claim: the cursor read returns the persisted instant when there is a
  readable one, and the default (now minus 60 seconds) whenever the cursor is absent
  or unreadable, also for a file whose contents cannot be interpreted as an instant.
  The code does not: \<^verbatim>\<open>JSON.parse\<close> accepts \<^verbatim>\<open>{}\<close>, \<^verbatim>\<open>{"lastSync": null}\<close> and \<^verbatim>\<open>5\<close>, no
  exception reaches the \<^verbatim>\<open>catch\<close> that holds the fallback, and the function returns
  \<^verbatim>\<open>new Date(undefined)\<close> (an invalid date), \<^verbatim>\<open>new Date(null)\<close> (the epoch) and an invalid
  date again, for every clock reading and every \<^verbatim>\<open>Date.parse\<close>.
\<close>

theorem getLastSyncTime_not_default:
  "getLastSyncTime parse (Doc (JObject [])) now = Invalid_Date \<and>
   getLastSyncTime parse (Doc (JObject [(''lastSync'', JNull)])) now = Date 0 \<and>
   getLastSyncTime parse (Doc (JNumber 5)) now = Invalid_Date"
  by (simp add: getLastSyncTime_def new_Date_def)

section \<open>The sync cycle and the cursor\<close>

text \<open>A call that passes the guard, by the outcome of its query and of its POST.\<close>

lemma monitorarMudancas_eq:
  "pool_ready pool \<Longrightarrow>
   monitorarMudancas parse toISOString io pool db file =
     (case run_query (query_fails io) (getLastSyncTime parse file (clock_read io)) db of
        Inl err \<Rightarrow> (file, None)
      | Inr batch \<Rightarrow>
          if batch = [] then (updateLastSyncTime toISOString (file_write io) (clock_start io) file, None)
          else if publish_ok io
          then (updateLastSyncTime toISOString (file_write io) (clock_start io) file, Some batch)
          else (file, Some batch))"
  by (simp add: monitorarMudancas_def monitor_enter_def monitor_after_query_def
      monitor_after_publish_def split: sum.splits)

text \<open>A call that does not pass the guard does nothing.\<close>

lemma monitorarMudancas_offline:
  "\<not> pool_ready pool \<Longrightarrow> monitorarMudancas parse toISOString io pool db file = (file, None)"
  by (simp add: monitorarMudancas_def monitor_enter_def)

lemma detect_loja_140000: "detect 140000 loja = []"
  by (simp add: detect_def changed_rows_def joined_def loja_def group_by_sku_def skus_of_def
      has_sku_def)

text \<open>
  Claim C1, as amended. For every cycle that runs (the pool is connected) with no
  other cycle in between: if the query returns an empty result, or a batch that is
  then published, and the write of the cursor file succeeds, the file afterwards holds
  the document of the instant captured before the query; if the POST fails the file is
  unchanged.
\<close>

theorem monitorarMudancas_cursor:
  assumes "pool_ready pool"
  shows "((run_query (query_fails io) (getLastSyncTime parse file (clock_read io)) db = Inr []
           \<or> (\<exists>batch. run_query (query_fails io) (getLastSyncTime parse file (clock_read io)) db
                         = Inr batch
                 \<and> batch \<noteq> [] \<and> publish_ok io))
          \<and> file_write io = Write_ok
          \<longrightarrow> fst (monitorarMudancas parse toISOString io pool db file)
                = cursor_doc toISOString (clock_start io))
       \<and> ((\<exists>batch. run_query (query_fails io) (getLastSyncTime parse file (clock_read io)) db
                      = Inr batch
                 \<and> batch \<noteq> [] \<and> \<not> publish_ok io)
          \<longrightarrow> fst (monitorarMudancas parse toISOString io pool db file) = file)"
  using assms by (auto simp: monitorarMudancas_eq updateLastSyncTime_def)

text \<open>The amended claim at the example store, the cursor file missing: nothing
  changed in the last minute, the write succeeds, the file holds the new document.\<close>

theorem monitorarMudancas_cursor_witness:
  "pool_ready (Some True)
   \<and> run_query (query_fails (io_exemplo True Write_ok))
        (getLastSyncTime parse_exemplo No_file (clock_read (io_exemplo True Write_ok))) loja = Inr []
   \<and> file_write (io_exemplo True Write_ok) = Write_ok
   \<and> fst (monitorarMudancas parse_exemplo iso_exemplo (io_exemplo True Write_ok) (Some True) loja No_file)
       = cursor_doc iso_exemplo 200001"
  using monitorarMudancas_cursor
    [of "Some True" "io_exemplo True Write_ok" parse_exemplo No_file loja iso_exemplo]
  by (simp add: pool_ready_def io_exemplo_def getLastSyncTime_def run_query_def
      sql_datetime_ok_def detect_loja_140000)

text \<open>
  The claim as stated fails: the same cycle with a write that raises (the catch of
  \<^verbatim>\<open>updateLastSyncTime\<close> logs the error) ends with an empty result and a cursor file
  that does not hold the instant of the cycle's start.
\<close>

theorem monitorarMudancas_write_fails:
  "pool_ready (Some True)
   \<and> run_query (query_fails (io_exemplo True (Write_raises No_file)))
        (getLastSyncTime parse_exemplo No_file
           (clock_read (io_exemplo True (Write_raises No_file)))) loja = Inr []
   \<and> fst (monitorarMudancas parse_exemplo iso_exemplo (io_exemplo True (Write_raises No_file))
            (Some True) loja No_file)
       \<noteq> cursor_doc iso_exemplo (clock_start (io_exemplo True (Write_raises No_file)))"
  by (simp add: monitorarMudancas_eq pool_ready_def io_exemplo_def getLastSyncTime_def
      run_query_def sql_datetime_ok_def detect_loja_140000 updateLastSyncTime_def
      cursor_doc_def)

section \<open>The timer\<close>

text \<open>Among other calls, a call whose POST fails leaves the cursor file as it finds it,
  and so does a tick.\<close>

lemma step_publish_failed_keeps_cursor:
  "the_cursor (step parse toISOString s (Publish_returns k False w)) = the_cursor s"
  by (simp add: monitor_after_publish_def split: suspended.splits)

lemma step_tick_keeps_cursor:
  "the_cursor (step parse toISOString s (Tick t_read t_start)) = the_cursor s"
  by (simp add: monitor_enter_def)

text \<open>In both variants the POST may outlast the interval of the timer.\<close>

lemma timeout_outlasts_interval:
  "tick_interval < publish_timeout \<and> tick_interval_agente < publish_timeout_agente"
  by (simp add: tick_interval_def publish_timeout_def tick_interval_agente_def
      publish_timeout_agente_def)

text \<open>
  Claim C4, as amended. A tick performs no work exactly when the pool is unset or
  disconnected. With the pool connected every tick starts a cycle of its own (it reads
  the cursor and issues its detection query) whatever calls are still in flight; this
  holds in both variants.
\<close>

theorem tick_starts_cycle:
  "(pool_ready (the_pool s) \<longrightarrow>
      in_flight (step parse toISOString s (Tick t_read t_start)) =
        in_flight s @ [Await_query (getLastSyncTime parse (the_cursor s) t_read) t_start])
   \<and> (\<not> pool_ready (the_pool s) \<longrightarrow> step parse toISOString s (Tick t_read t_start) = s)
   \<and> (pool_ready pool \<longrightarrow> tick_agente pool calls = calls @ [Agente_query])
   \<and> (\<not> pool_ready pool \<longrightarrow> tick_agente pool calls = calls)"
  by (simp add: monitor_enter_def tick_agente_def)

theorem tick_starts_cycle_witness:
  "pool_ready (the_pool agente_parado)
   \<and> in_flight (step parse_exemplo iso_exemplo agente_parado (Tick 100000 100001)) =
        in_flight agente_parado @ [Await_query (Date 40000) 100001]
   \<and> \<not> pool_ready None
   \<and> step parse_exemplo iso_exemplo (agente_parado\<lparr>the_pool := None\<rparr>) (Tick 100000 100001)
        = agente_parado\<lparr>the_pool := None\<rparr>
   \<and> tick_agente (Some True) [Agente_query] = [Agente_query, Agente_query]
   \<and> tick_agente None [Agente_query] = [Agente_query]"
  using tick_starts_cycle
      [of agente_parado parse_exemplo iso_exemplo 100000 100001 "Some True" "[Agente_query]"]
    tick_starts_cycle
      [of "agente_parado\<lparr>the_pool := None\<rparr>" parse_exemplo iso_exemplo 100000 100001 None
          "[Agente_query]"]
  by (simp add: pool_ready_def agente_parado_def getLastSyncTime_def)

lemma detect_loja_recent:
  "detect 40000 loja = [\<lparr>row_sku = ''456'', row_name = ''Lapis'', total_stock = 10, price = 100\<rparr>]
   \<and> detect 45000 loja = [\<lparr>row_sku = ''456'', row_name = ''Lapis'', total_stock = 10, price = 100\<rparr>]"
  by (simp add: detect_def changed_rows_def joined_def loja_def group_by_sku_def skus_of_def
      has_sku_def clamped_def)

text \<open>
  The claim as stated fails. Two ticks five seconds apart, the first query still
  running: two detection queries are in flight. And with both queries answered while
  the first POST is still running, two POSTs of the same batch are in flight. In
  agente.js two ticks leave two queries in flight as well.
\<close>

theorem ticks_overlap:
  "in_flight (run parse_exemplo iso_exemplo agente_parado [Tick 100000 100001, Tick 105000 105001])
     = [Await_query (Date 40000) 100001, Await_query (Date 45000) 105001]
   \<and> in_flight (run parse_exemplo iso_exemplo agente_parado
        [Tick 100000 100001, Query_returns 0 False Write_ok,
         Tick 105000 105001, Query_returns 1 False Write_ok])
     = [Await_publish 100001
          [\<lparr>row_sku = ''456'', row_name = ''Lapis'', total_stock = 10, price = 100\<rparr>],
        Await_publish 105001
          [\<lparr>row_sku = ''456'', row_name = ''Lapis'', total_stock = 10, price = 100\<rparr>]]
   \<and> tick_agente (Some True) (tick_agente (Some True) []) = [Agente_query, Agente_query]"
  by (simp add: run_def monitor_enter_def tick_agente_def pool_ready_def agente_parado_def
      getLastSyncTime_def monitor_after_query_def run_query_def sql_datetime_ok_def
      detect_loja_recent)

section \<open>Change detection\<close>

lemma filter_nonempty_of_sku:
  "k \<in> set (skus_of rows) \<Longrightarrow> filter (\<lambda>(p, l). P_CBARRA p = Some k) rows \<noteq> []"
  by (fastforce simp: skus_of_def filter_empty_conv split: option.splits)

lemma map_row_sku_aggregate: "g \<noteq> [] \<Longrightarrow> map row_sku (aggregate k g) = [k]"
  by (cases g) auto

text \<open>The skus of the result: one row for each sku of the selected rows.\<close>

lemma map_row_sku_group: "map row_sku (group_by_sku rows) = remdups (skus_of rows)"
proof -
  have "map row_sku
          (concat (map (\<lambda>k. aggregate k (filter (\<lambda>(p, l). P_CBARRA p = Some k) rows)) ks)) = ks"
    if "set ks \<subseteq> set (skus_of rows)" for ks
    using that
  proof (induction ks)
    case Nil
    then show ?case by simp
  next
    case (Cons k ks)
    then show ?case
      by (simp add: map_row_sku_aggregate filter_nonempty_of_sku)
  qed
  then show ?thesis by (simp add: group_by_sku_def)
qed

lemma set_skus_of: "set (skus_of rows) = {k. \<exists>p l. (p, l) \<in> set rows \<and> P_CBARRA p = Some k}"
  by (auto simp: skus_of_def split: option.splits)

lemma in_joined:
  "(p, l) \<in> set (joined db) \<longleftrightarrow>
     p \<in> set (PRODUTOS db) \<and> l \<in> set (PRODLOJAS db) \<and> P_CODIGO p = L_CODIGO l"
  by (auto simp: joined_def)

lemma detect_skus: "k \<in> set (map row_sku (detect since db)) \<longleftrightarrow> changed_since since db k"
  unfolding map_row_sku_group detect_def
  by (auto simp: set_skus_of changed_rows_def in_joined changed_since_def has_sku_def) fastforce+

lemma detect_agente_skus:
  "k \<in> set (map row_sku (detect_agente getdate db)) \<longleftrightarrow> changed_in_window getdate db k"
  unfolding map_row_sku_group detect_agente_def
  by (auto simp: set_skus_of window_rows_def in_joined changed_in_window_def has_sku_def)
    fastforce+

text \<open>
  Claim C5, as amended. In part\_000, for every cursor value and every store, the
  query returns one row for each sku that is present, not empty, and carried by a
  product (a master row joined to at least one stock row) whose modification instant
  is strictly greater than the cursor, and no other row. In agente.js the query takes
  no cursor: it returns, in the same way, the skus of the products modified at or after
  the store's clock minus five seconds.
\<close>

theorem detect_exactly_changed:
  "(k \<in> set (map row_sku (detect since db)) \<longleftrightarrow> changed_since since db k)
   \<and> distinct (map row_sku (detect since db))
   \<and> (k \<in> set (map row_sku (detect_agente getdate db)) \<longleftrightarrow> changed_in_window getdate db k)
   \<and> distinct (map row_sku (detect_agente getdate db))"
  by (simp only: detect_skus detect_agente_skus,
      simp add: detect_def detect_agente_def map_row_sku_group)

theorem detect_exactly_changed_witness:
  "''456'' \<in> set (map row_sku (detect 1000 loja)) \<and> changed_since 1000 loja ''456''
   \<and> ''789'' \<notin> set (map row_sku (detect 1000 loja)) \<and> \<not> changed_since 1000 loja ''789''
   \<and> distinct (map row_sku (detect 1000 loja))
   \<and> ''456'' \<in> set (map row_sku (detect_agente 104000 loja))
   \<and> changed_in_window 104000 loja ''456''"
  using detect_exactly_changed [of "''456''" 1000 loja 104000]
        detect_exactly_changed [of "''789''" 1000 loja 104000]
  by (simp add: changed_since_def changed_in_window_def loja_def)

text \<open>
  The claim as stated fails. On agente.js: with the store's clock at 100000, product
  789, modified at 1000 and so changed since the cursor 0, is not returned. On
  part\_000: product 555 of the master, modified after the cursor 0, has no stock row
  and is not returned, the join being an inner join.
\<close>

theorem detect_agente_ignores_cursor:
  "changed_since 0 loja ''789'' \<and> ''789'' \<notin> set (map row_sku (detect_agente 100000 loja))
   \<and> master_changed_since 0 loja ''555'' \<and> ''555'' \<notin> set (map row_sku (detect 0 loja))"
  using detect_agente_skus [of "''789''" 100000 loja] detect_skus [of "''555''" 0 loja]
  by (simp add: changed_since_def changed_in_window_def master_changed_since_def loja_def)

subsection \<open>Stock\<close>

lemma sum_clamped:
  "sum_list (map (\<lambda>(p, l). clamped l) g) =
     sum_list (filter (\<lambda>x. 0 \<le> x) (map (\<lambda>(p, l). L_EST_ATUAL l) g))"
  by (induction g) (auto simp: clamped_def)

lemma sum_clamped_nonneg: "0 \<le> sum_list (map (\<lambda>(p, l). clamped l) g)"
  by (induction g) (auto simp: clamped_def)

lemma aggregate_row:
  "r \<in> set (aggregate k g) \<Longrightarrow>
     row_sku r = k \<and> total_stock r = sum_list (map (\<lambda>(p, l). clamped l) g)"
  by (cases g) auto

lemma location_stocks_filter:
  "location_stocks k rows =
     map (\<lambda>(p, l). L_EST_ATUAL l) (filter (\<lambda>(p, l). P_CBARRA p = Some k) rows)"
  by (induction rows) (auto simp: location_stocks_def)

lemma group_by_sku_stock:
  assumes "r \<in> set (group_by_sku rows)"
  shows "0 \<le> total_stock r \<and>
     total_stock r = sum_list (filter (\<lambda>x. 0 \<le> x) (location_stocks (row_sku r) rows))"
proof -
  from assms obtain k where
    r: "r \<in> set (aggregate k (filter (\<lambda>(p, l). P_CBARRA p = Some k) rows))"
    by (auto simp: group_by_sku_def)
  from aggregate_row [OF r] have "0 \<le> total_stock r"
    by (simp add: sum_clamped_nonneg)
  moreover from aggregate_row [OF r]
  have "total_stock r = sum_list (filter (\<lambda>x. 0 \<le> x) (location_stocks (row_sku r) rows))"
    by (simp add: sum_clamped location_stocks_filter)
  ultimately show ?thesis by simp
qed

text \<open>Every batch a cycle hands to the POST is a result of the detection query.\<close>

lemma monitorarMudancas_batch:
  "snd (monitorarMudancas parse toISOString io pool db file) = Some batch \<Longrightarrow>
     \<exists>t. batch = detect t db"
  by (cases "pool_ready pool")
     (auto simp: monitorarMudancas_eq monitorarMudancas_offline run_query_def
        sql_datetime_ok_def
       split: sum.splits js_date.splits if_splits)

lemma monitorarMudancas_agente_batch:
  "monitorarMudancas_agente pool fails getdate db = Some batch \<Longrightarrow>
     batch = detect_agente getdate db"
  by (auto simp: monitorarMudancas_agente_def Let_def split: if_splits)

text \<open>
  Claim C8. Every row of every result of the detection query, in both variants, has a
  total stock that is at least zero and equal to the sum of the stock values of its
  location rows that are not negative: a negative value adds nothing and subtracts
  nothing.
\<close>

theorem total_stock_nonneg:
  "(r \<in> set (detect lastCheck db) \<longrightarrow>
      0 \<le> total_stock r \<and>
      total_stock r =
        sum_list (filter (\<lambda>x. 0 \<le> x) (location_stocks (row_sku r) (changed_rows lastCheck db))))
   \<and> (r \<in> set (detect_agente getdate db) \<longrightarrow>
      0 \<le> total_stock r \<and>
      total_stock r =
        sum_list (filter (\<lambda>x. 0 \<le> x) (location_stocks (row_sku r) (window_rows getdate db))))"
  unfolding detect_def detect_agente_def
  using group_by_sku_stock [of r "changed_rows lastCheck db"]
    group_by_sku_stock [of r "window_rows getdate db"]
  by blast

lemma detect_loja_0:
  "detect 0 loja =
     [\<lparr>row_sku = ''789'', row_name = ''Caneta'', total_stock = 4, price = 260\<rparr>,
      \<lparr>row_sku = ''456'', row_name = ''Lapis'', total_stock = 10, price = 100\<rparr>]"
  by (simp add: detect_def changed_rows_def joined_def loja_def group_by_sku_def skus_of_def
      has_sku_def clamped_def)

lemma detect_agente_loja_0: "detect_agente 0 loja = detect 0 loja"
  by (simp add: detect_def detect_agente_def changed_rows_def window_rows_def joined_def
      loja_def group_by_sku_def skus_of_def has_sku_def clamped_def)

text \<open>Product 789 has the location stocks -3 and 4: its total is 4.\<close>

theorem total_stock_nonneg_witness:
  "\<lparr>row_sku = ''789'', row_name = ''Caneta'', total_stock = 4, price = 260\<rparr> \<in> set (detect 0 loja)
   \<and> location_stocks ''789'' (changed_rows 0 loja) = [- 3, 4]
   \<and> \<lparr>row_sku = ''789'', row_name = ''Caneta'', total_stock = 4, price = 260\<rparr>
        \<in> set (detect_agente 0 loja)
   \<and> total_stock \<lparr>row_sku = ''789'', row_name = ''Caneta'', total_stock = 4, price = 260\<rparr>
       = sum_list (filter (\<lambda>x. 0 \<le> x) (location_stocks ''789'' (window_rows 0 loja)))"
  using total_stock_nonneg
    [of "\<lparr>row_sku = ''789'', row_name = ''Caneta'', total_stock = 4, price = 260\<rparr>" 0 loja 0]
  by (simp add: detect_agente_loja_0 detect_loja_0)
    (simp add: location_stocks_def changed_rows_def joined_def loja_def has_sku_def)

section \<open>Order ingestion\<close>

subsection \<open>The steps\<close>

text \<open>The first loop keeps the items, in order, and sends one lookup per item.\<close>

lemma resolve_Inr:
  "resolve cols msg ps is = (sel, Inr found) \<Longrightarrow>
     map sku found = map sku is \<and> map qtd found = map qtd is \<and> map preco found = map preco is
     \<and> sel = map (\<lambda>i. Select_produto cols (sku i)) is"
  by (induction "is" arbitrary: sel found)
     (auto split: option.splits prod.splits sum.splits)




text \<open>The two variants resolve the same items; their lookups differ in the columns
  read, their errors in the message.\<close>

lemma resolve_two_messages:
  "(case snd (resolve c1 m1 ps is :: 's db_op list \<times> (exn + 'n item_resolved list)) of
      Inr found \<Rightarrow>
        snd (resolve c2 m2 ps is :: 's db_op list \<times> (exn + 'n item_resolved list)) = Inr found
    | Inl err \<Rightarrow>
        \<exists>e. snd (resolve c2 m2 ps is :: 's db_op list \<times> (exn + 'n item_resolved list)) = Inl e)"
  by (induction "is") (auto split: option.splits prod.splits sum.splits)

text \<open>The allocated id and sequence are greater than every one in the table.\<close>

lemma max_or_zero_ge: "x \<in> set xs \<Longrightarrow> x \<le> max_or_zero xs"
proof (cases xs)
  case Nil
  then show "x \<in> set xs \<Longrightarrow> x \<le> max_or_zero xs" by simp
next
  case (Cons y ys)
  assume "x \<in> set xs"
  then have "x \<le> Max (set (y # ys))" using Cons by (intro Max_ge) simp_all
  then show "x \<le> max_or_zero xs"
    by (simp only: Cons max_or_zero_def list.case Max.set_eq_fold)
qed

lemma next_ids_fresh:
  "h \<in> set (ORCPERSON db) \<Longrightarrow>
     O_CODIGO h < fst (next_ids db) \<and> O_SEQUENCIA h < snd (next_ids db)"
  using max_or_zero_ge [of "O_CODIGO h" "map O_CODIGO (ORCPERSON db)"]
    max_or_zero_ge [of "O_SEQUENCIA h" "map O_SEQUENCIA (ORCPERSON db)"]
  by (simp add: next_ids_def)

text \<open>The total depends on the quantities and unit prices only.\<close>

lemma total_pedido_zip:
  "total_pedido xs = foldl (\<lambda>acc (q, p). acc + q * p) 0 (zip (map qtd xs) (map preco xs))"
proof -
  have "foldl (\<lambda>acc i. acc + qtd i * preco i) a xs
        = foldl (\<lambda>acc (q, p). acc + q * p) a (zip (map qtd xs) (map preco xs))" for a
    by (induction xs arbitrary: a) simp_all
  then show ?thesis by (simp add: total_pedido_def)
qed

lemma total_pedido_cong:
  "map qtd xs = map qtd ys \<Longrightarrow> map preco xs = map preco ys \<Longrightarrow>
     total_pedido xs = total_pedido ys"
  by (simp add: total_pedido_zip)

text \<open>When the second loop ends without an error, each line row carries what the driver
  made of its item's quantity, unit price and product of the two.\<close>

lemma insert_itens_Cons:
  "insert_itens drv novoId getdate n (i # rest) = (rows, None) \<Longrightarrow>
     \<exists>quantidade unitario vltotal rows'.
        sql_Float drv (qtd i) = Some quantidade \<and> sql_Money drv (preco i) = Some unitario
        \<and> sql_Money drv (qtd i * preco i) = Some vltotal
        \<and> insert_itens drv novoId getdate (Suc n) rest = (rows', None)
        \<and> rows = \<lparr>I_CODIGOI = novoId, I_CODPRODUTO = codigoInterno i,
                    I_DESCRICAO = descricao i, I_QUANTIDADE = quantidade,
                    I_UNITARIO = unitario, I_VLTOTAL = vltotal,
                    I_DATA = getdate n, I_ITEM = n\<rparr> # rows'"
  by (auto split: if_splits option.splits prod.splits)

lemma insert_itens_rows:
  "insert_itens drv novoId getdate n found = (rows, None) \<Longrightarrow>
     map (\<lambda>r. Some (I_QUANTIDADE r)) rows = map (\<lambda>i. sql_Float drv (qtd i)) found
     \<and> map (\<lambda>r. Some (I_UNITARIO r)) rows = map (\<lambda>i. sql_Money drv (preco i)) found
     \<and> map (\<lambda>r. Some (I_VLTOTAL r)) rows = map (\<lambda>i. sql_Money drv (qtd i * preco i)) found
     \<and> map I_ITEM rows = [n..<n + length found]"
proof (induction found arbitrary: n rows)
  case Nil
  then show ?case by simp
next
  case (Cons i rest)
  from insert_itens_Cons [OF Cons.prems] obtain quantidade unitario vltotal rows' where
    c: "sql_Float drv (qtd i) = Some quantidade" "sql_Money drv (preco i) = Some unitario"
      "sql_Money drv (qtd i * preco i) = Some vltotal"
    and r: "insert_itens drv novoId getdate (Suc n) rest = (rows', None)"
    and rows: "rows = \<lparr>I_CODIGOI = novoId, I_CODPRODUTO = codigoInterno i,
                    I_DESCRICAO = descricao i, I_QUANTIDADE = quantidade,
                    I_UNITARIO = unitario, I_VLTOTAL = vltotal,
                    I_DATA = getdate n, I_ITEM = n\<rparr> # rows'"
    by blast
  have "[n..<n + length (i # rest)] = n # [Suc n..<Suc n + length rest]"
    using upt_conv_Cons [of n "Suc (n + length rest)"] by simp
  with Cons.IH [OF r] c rows show ?case by simp
qed

lemma map_qtd_preco_cong:
  "map qtd xs = map qtd ys \<Longrightarrow> map preco xs = map preco ys \<Longrightarrow>
     map (\<lambda>i. g (qtd i) (preco i)) xs = map (\<lambda>i. g (qtd i) (preco i)) ys"
proof (induction xs arbitrary: ys)
  case Nil
  then show ?case by simp
next
  case (Cons x xs)
  then show ?case by (cases ys) auto
qed

subsection \<open>Committed orders\<close>

text \<open>What a transaction that reaches the commit has done.\<close>

lemma pedido_tx_Inr:
  fixes drv :: "('n::{zero,plus,times}, 's) driver"
  assumes "pedido_tx drv getdate db c is = (sent, Inr (db', novoId))"
  shows "\<exists>(sel :: 's db_op list) found novaSeq bruto rows.
           resolve [''CODIGO'', ''NOME'', ''PCO_VENDA''] nao_encontrado (PRODUTOS db) is
             = (sel, Inr found)
           \<and> next_ids db = (novoId, novaSeq)
           \<and> sql_Money drv (total_pedido found) = Some bruto
           \<and> insert_itens drv novoId getdate 1 found = (rows, None)
           \<and> db' = db\<lparr>ORCPERSON := ORCPERSON db @
                          [header_row novoId novaSeq (nome_pedido c) bruto ''INTEGRACAO''
                             (getdate 0)],
                        ORCPERSONI := ORCPERSONI db @ rows\<rparr>"
  using assms
  by (cases "resolve [''CODIGO'', ''NOME'', ''PCO_VENDA''] nao_encontrado (PRODUTOS db) is
               :: 's db_op list \<times> (exn + 'n item_resolved list)";
      cases "next_ids db")
     (auto simp: pedido_tx_def split: sum.splits if_splits option.splits prod.splits)

lemma pedido_tx_agente_Inr:
  fixes drv :: "('n::{zero,plus,times}, 's) driver"
  assumes "pedido_tx_agente drv getdate db body = (sent, Inr (db', novoId))"
    and "itens body = Some is"
  shows "\<exists>c (sel :: 's db_op list) found novaSeq bruto rows.
           cliente body = Some c
           \<and> resolve [''CODIGO'', ''NOME''] nao_encontrado_agente (PRODUTOS db) is
               = (sel, Inr found)
           \<and> next_ids db = (novoId, novaSeq)
           \<and> sql_Money drv (total_pedido found) = Some bruto
           \<and> insert_itens drv novoId getdate 1 found = (rows, None)
           \<and> db' = db\<lparr>ORCPERSON := ORCPERSON db @
                          [header_row novoId novaSeq (nome_pedido_agente c) bruto ''SITE''
                             (getdate 0)],
                        ORCPERSONI := ORCPERSONI db @ rows\<rparr>"
  using assms
  by (cases "resolve [''CODIGO'', ''NOME''] nao_encontrado_agente (PRODUTOS db) is
               :: 's db_op list \<times> (exn + 'n item_resolved list)";
      cases "next_ids db")
     (auto simp: pedido_tx_agente_def split: sum.splits if_splits option.splits prod.splits)

text \<open>
  The rows of a committed order: the header carries, as gross and as net total, what the
  driver made of the program's total of the request's items (quantity times unit price,
  added from \<open>0\<close> in request order, the catalog price not read), and each line what the
  driver made of its item's quantity, unit price and product of the two.
\<close>

lemma committed_rows:
  assumes r: "resolve cols msg (PRODUTOS db) is = (sel, Inr found)"
    and t: "sql_Money drv (total_pedido found) = Some bruto"
    and l: "insert_itens drv novoId getdate 1 found = (rows, None)"
    and d: "db' = db\<lparr>ORCPERSON := ORCPERSON db @
                        [header_row novoId novaSeq nm bruto usr em],
                      ORCPERSONI := ORCPERSONI db @ rows\<rparr>"
  shows "map (\<lambda>h. Some (O_TOTALBRUTO h)) (new_headers db db') = [sql_Money drv (total_pedido is)]
     \<and> map (\<lambda>h. Some (O_TOTALLIQUIDO h)) (new_headers db db') = [sql_Money drv (total_pedido is)]
     \<and> map (\<lambda>r. Some (I_QUANTIDADE r)) (new_lines db db') = map (\<lambda>i. sql_Float drv (qtd i)) is
     \<and> map (\<lambda>r. Some (I_UNITARIO r)) (new_lines db db') = map (\<lambda>i. sql_Money drv (preco i)) is
     \<and> map (\<lambda>r. Some (I_VLTOTAL r)) (new_lines db db')
         = map (\<lambda>i. sql_Money drv (qtd i * preco i)) is"
proof -
  from resolve_Inr [OF r] have q: "map qtd found = map qtd is"
    and p: "map preco found = map preco is"
    by simp_all
  have tot: "total_pedido found = total_pedido is"
    using total_pedido_cong [OF q p] .
  have "map (\<lambda>i. sql_Float drv (qtd i)) found = map (\<lambda>i. sql_Float drv (qtd i)) is"
    and "map (\<lambda>i. sql_Money drv (preco i)) found = map (\<lambda>i. sql_Money drv (preco i)) is"
    and "map (\<lambda>i. sql_Money drv (qtd i * preco i)) found
           = map (\<lambda>i. sql_Money drv (qtd i * preco i)) is"
    using map_qtd_preco_cong [OF q p, of "\<lambda>q p. sql_Float drv q"]
      map_qtd_preco_cong [OF q p, of "\<lambda>q p. sql_Money drv p"]
      map_qtd_preco_cong [OF q p, of "\<lambda>q p. sql_Money drv (q * p)"]
    by simp_all
  with insert_itens_rows [OF l] t tot d show ?thesis
    by (simp add: new_headers_def new_lines_def header_row_def)
qed

lemma criar_pedido_committed:
  fixes drv :: "('n::{zero,plus,times}, 's) driver"
  assumes "reply (criar_pedido drv active getdate pool db (Some body)) = Reply 200 (Sucesso novoId)"
    and "itens body = Some is"
  shows "map (\<lambda>h. Some (O_TOTALBRUTO h))
             (new_headers db (db_after (criar_pedido drv active getdate pool db (Some body))))
           = [sql_Money drv (total_pedido is)]
     \<and> map (\<lambda>r. Some (I_VLTOTAL r))
             (new_lines db (db_after (criar_pedido drv active getdate pool db (Some body))))
           = map (\<lambda>i. sql_Money drv (qtd i * preco i)) is"
proof -
  from assms obtain c sent db' where
    tx: "pedido_tx drv getdate db c is = (sent, Inr (db', novoId))"
    and d: "db_after (criar_pedido drv active getdate pool db (Some body)) = db'"
    by (cases "cliente body"; cases "is"; cases "pedido_tx drv getdate db (the (cliente body)) is")
       (auto simp: criar_pedido_def banco_offline_def dados_invalidos_def
          split: if_splits sum.splits prod.splits)
  from pedido_tx_Inr [OF tx] obtain sel found novaSeq bruto rows where
    "resolve [''CODIGO'', ''NOME'', ''PCO_VENDA''] nao_encontrado (PRODUTOS db) is
       = (sel :: 's db_op list, Inr found)"
    "sql_Money drv (total_pedido found) = Some bruto"
    "insert_itens drv novoId getdate 1 found = (rows, None)"
    "db' = db\<lparr>ORCPERSON := ORCPERSON db @
                  [header_row novoId novaSeq (nome_pedido c) bruto ''INTEGRACAO'' (getdate 0)],
                ORCPERSONI := ORCPERSONI db @ rows\<rparr>"
    by blast
  from committed_rows [OF this] d show ?thesis by simp
qed

lemma criar_pedido_agente_committed:
  fixes drv :: "('n::{zero,plus,times}, 's) driver"
  assumes "reply (criar_pedido_agente drv active getdate pool db (Some body))
             = Reply 200 (Sucesso novoId)"
    and "itens body = Some is"
  shows "map (\<lambda>h. Some (O_TOTALBRUTO h))
             (new_headers db (db_after (criar_pedido_agente drv active getdate pool db (Some body))))
           = [sql_Money drv (total_pedido is)]
     \<and> map (\<lambda>r. Some (I_VLTOTAL r))
             (new_lines db (db_after (criar_pedido_agente drv active getdate pool db (Some body))))
           = map (\<lambda>i. sql_Money drv (qtd i * preco i)) is"
proof -
  from assms obtain sent db' where
    tx: "pedido_tx_agente drv getdate db body = (sent, Inr (db', novoId))"
    and d: "db_after (criar_pedido_agente drv active getdate pool db (Some body)) = db'"
    by (cases "pedido_tx_agente drv getdate db body")
       (auto simp: criar_pedido_agente_def banco_offline_def
          split: if_splits sum.splits prod.splits)
  from pedido_tx_agente_Inr [OF tx assms(2)] obtain c sel found novaSeq bruto rows where
    "resolve [''CODIGO'', ''NOME''] nao_encontrado_agente (PRODUTOS db) is
       = (sel :: 's db_op list, Inr found)"
    "sql_Money drv (total_pedido found) = Some bruto"
    "insert_itens drv novoId getdate 1 found = (rows, None)"
    "db' = db\<lparr>ORCPERSON := ORCPERSON db @
                  [header_row novoId novaSeq (nome_pedido_agente c) bruto ''SITE'' (getdate 0)],
                ORCPERSONI := ORCPERSONI db @ rows\<rparr>"
    by blast
  from committed_rows [OF this] d show ?thesis by simp
qed

text \<open>The example order, two of product 789 at 10 and one of product 456 at 7, run
  through both variants.\<close>

lemma pedido_bom_part000:
  "reply (criar_pedido drv_exemplo False relogio (Some True) loja (Some pedido_bom))
     = Reply 200 (Sucesso 8)
   \<and> map O_TOTALBRUTO
        (new_headers loja
           (db_after (criar_pedido drv_exemplo False relogio (Some True) loja (Some pedido_bom))))
       = [27]
   \<and> map O_NOMEUSUARIO
        (new_headers loja
           (db_after (criar_pedido drv_exemplo False relogio (Some True) loja (Some pedido_bom))))
       = [''INTEGRACAO'']
   \<and> map I_VLTOTAL
        (new_lines loja
           (db_after (criar_pedido drv_exemplo False relogio (Some True) loja (Some pedido_bom))))
       = [20, 7]"
  by (simp add: criar_pedido_def pedido_tx_def pedido_bom_def loja_def pool_ready_def
      next_ids_def max_or_zero_def sql_int_ok_def header_row_def new_headers_def new_lines_def
      total_pedido_def drv_exemplo_def)

lemma pedido_bom_agente:
  "reply (criar_pedido_agente drv_exemplo False relogio (Some True) loja (Some pedido_bom))
     = Reply 200 (Sucesso 8)
   \<and> map O_TOTALBRUTO
        (new_headers loja
           (db_after
              (criar_pedido_agente drv_exemplo False relogio (Some True) loja (Some pedido_bom))))
       = [27]
   \<and> map O_NOMEUSUARIO
        (new_headers loja
           (db_after
              (criar_pedido_agente drv_exemplo False relogio (Some True) loja (Some pedido_bom))))
       = [''SITE'']
   \<and> map I_VLTOTAL
        (new_lines loja
           (db_after
              (criar_pedido_agente drv_exemplo False relogio (Some True) loja (Some pedido_bom))))
       = [20, 7]"
  by (simp add: criar_pedido_agente_def pedido_tx_agente_def pedido_bom_def loja_def
      pool_ready_def next_ids_def max_or_zero_def sql_int_ok_def header_row_def new_headers_def
      new_lines_def total_pedido_def drv_exemplo_def)

text \<open>The statements the two variants send for it differ in their text: the columns of
  the lookups, the locking hints of the allocation read, the literals of the header.\<close>

lemma pedido_bom_statements:
  "take 4 (ops (criar_pedido drv_exemplo False relogio (Some True) loja (Some pedido_bom)))
     = [Begin, Select_produto [''CODIGO'', ''NOME'', ''PCO_VENDA''] ''789'',
        Select_produto [''CODIGO'', ''NOME'', ''PCO_VENDA''] ''456'', Select_ids True]
   \<and> take 4 (ops (criar_pedido_agente drv_exemplo False relogio (Some True) loja (Some pedido_bom)))
     = [Begin, Select_produto [''CODIGO'', ''NOME''] ''789'',
        Select_produto [''CODIGO'', ''NOME''] ''456'', Select_ids False]
   \<and> last (ops (criar_pedido drv_exemplo False relogio (Some True) loja (Some pedido_bom))) = Commit
   \<and> last (ops (criar_pedido_agente drv_exemplo False relogio (Some True) loja (Some pedido_bom)))
       = Commit"
  by (simp add: criar_pedido_def pedido_tx_def criar_pedido_agente_def pedido_tx_agente_def
      pedido_bom_def loja_def pool_ready_def next_ids_def max_or_zero_def sql_int_ok_def
      total_pedido_def drv_exemplo_def header_row_def)

subsection \<open>Orders with a sku that does not resolve\<close>










subsection \<open>Requests without a customer or without items\<close>




text \<open>
  A request without a body, the pool connected: line 163 raises before the validation
  is reached, and the framework answers 500. No statement is sent.
\<close>

lemma criar_pedido_sem_corpo:
  "pool_ready pool \<Longrightarrow>
     criar_pedido drv active getdate pool db None
       = \<lparr>reply = Reply 500 (Erro_nao_tratado TypeError_property), db_after = db, ops = []\<rparr>"
  by (simp add: criar_pedido_def sem_corpo_def)

text \<open>
  agente.js checks nothing of the request: with the pool connected it opens a
  transaction whatever a body holds, and an empty item list commits a header row
  without lines.
\<close>

lemma criar_pedido_agente_begins:
  "pool_ready pool \<Longrightarrow>
     \<exists>rest. ops (criar_pedido_agente drv active getdate pool db (Some body)) = Begin # rest"
  by (cases "pedido_tx_agente drv getdate db body")
     (auto simp: criar_pedido_agente_def pedido_tx_agente_def
        split: option.splits prod.splits sum.splits if_splits)

lemma criar_pedido_agente_sem_itens:
  "ops (criar_pedido_agente drv_exemplo False relogio (Some True) loja (Some pedido_sem_itens))
     = [Begin, Select_ids False,
        Insert_orcperson (header_row 8 13 ''Joao'' 0 ''SITE'' 200000), Commit]
   \<and> reply (criar_pedido_agente drv_exemplo False relogio (Some True) loja (Some pedido_sem_itens))
       = Reply 200 (Sucesso 8)
   \<and> new_lines loja
        (db_after (criar_pedido_agente drv_exemplo False relogio (Some True) loja
                     (Some pedido_sem_itens))) = []"
  by (simp add: criar_pedido_agente_def pedido_tx_agente_def pedido_sem_itens_def loja_def
      pool_ready_def next_ids_def max_or_zero_def sql_int_ok_def header_row_def
      new_lines_def total_pedido_def drv_exemplo_def relogio_def nome_pedido_agente_def)

subsection \<open>The two variants compared\<close>

text \<open>The second loop is the same code in both files, and so are the allocation and the
  total: the transactions reach the commit together, and then have written the same
  rows but for the name and the user of the header.\<close>

lemma pedido_tx_variants:
  fixes drv :: "('n::{zero,plus,times}, 's) driver"
  assumes "cliente body = Some c" and "itens body = Some is"
  shows "(case snd (pedido_tx drv getdate db c is) of
          Inl err \<Rightarrow> \<exists>e. snd (pedido_tx_agente drv getdate db body) = Inl e
        | Inr (db', novoId) \<Rightarrow>
            \<exists>db'' h. snd (pedido_tx_agente drv getdate db body) = Inr (db'', novoId)
              \<and> ORCPERSONI db'' = ORCPERSONI db' \<and> PRODUTOS db'' = PRODUTOS db'
              \<and> PRODLOJAS db'' = PRODLOJAS db'
              \<and> map without_names (ORCPERSON db'') = map without_names (ORCPERSON db')
              \<and> new_headers db db' = [h]
              \<and> O_NOME h = nome_pedido c \<and> O_NOMEUSUARIO h = ''INTEGRACAO''
              \<and> new_headers db db''
                  = [h\<lparr>O_NOME := nome_pedido_agente c, O_NOMEUSUARIO := ''SITE''\<rparr>])"
  using assms
    resolve_two_messages
      [of "[''CODIGO'', ''NOME'', ''PCO_VENDA'']" nao_encontrado "PRODUTOS db" "is"
          "[''CODIGO'', ''NOME'']" nao_encontrado_agente,
       where ?'s = 's]
  by (cases "resolve [''CODIGO'', ''NOME'', ''PCO_VENDA''] nao_encontrado (PRODUTOS db) is
               :: 's db_op list \<times> (exn + 'n item_resolved list)";
      cases "resolve [''CODIGO'', ''NOME''] nao_encontrado_agente (PRODUTOS db) is
               :: 's db_op list \<times> (exn + 'n item_resolved list)";
      cases "next_ids db")
     (auto simp: pedido_tx_def pedido_tx_agente_def without_names_def header_row_def
        new_headers_def
       split: sum.splits option.splits prod.splits)

text \<open>
  Claim C10, as amended. For every request with a customer and at least one item, the
  pool connected, either both handlers commit or neither does, and the stores they
  leave hold the same line rows and the same header rows but for the columns \<^verbatim>\<open>NOME\<close>
  and \<^verbatim>\<open>NOMEUSUARIO\<close>. When they commit the responses are equal, and the new header row
  of agente.js is the one of part\_000 with \<^verbatim>\<open>NOMEUSUARIO\<close> \<^verbatim>\<open>'SITE'\<close> for \<^verbatim>\<open>'INTEGRACAO'\<close>
  and, as \<^verbatim>\<open>NOME\<close>, the customer name whole (or \<^verbatim>\<open>'CLIENTE E-COMMERCE'\<close>) for the name
  cut to 50 code units (or \<^verbatim>\<open>'CLIENTE WEB'\<close>). When they do not commit the store is
  unchanged and the status is 422 in part\_000 and 500 in agente.js.
\<close>

theorem variants_on_valid_request:
  fixes drv :: "('n::{zero,plus,times}, 's) driver"
  defines "A \<equiv> criar_pedido"
    and "B \<equiv> criar_pedido_agente"
  assumes "pool_ready pool" and "cliente body = Some c" and "itens body = Some (i # rest)"
  shows "ORCPERSONI (db_after (A drv active getdate pool db (Some body)))
         = ORCPERSONI (db_after (B drv active getdate pool db (Some body)))
     \<and> map without_names (ORCPERSON (db_after (A drv active getdate pool db (Some body))))
         = map without_names (ORCPERSON (db_after (B drv active getdate pool db (Some body))))
     \<and> PRODUTOS (db_after (A drv active getdate pool db (Some body)))
         = PRODUTOS (db_after (B drv active getdate pool db (Some body)))
     \<and> PRODLOJAS (db_after (A drv active getdate pool db (Some body)))
         = PRODLOJAS (db_after (B drv active getdate pool db (Some body)))
     \<and> (status (reply (A drv active getdate pool db (Some body))) = 200
        \<or> status (reply (B drv active getdate pool db (Some body))) = 200
          \<longrightarrow> reply (A drv active getdate pool db (Some body))
                = reply (B drv active getdate pool db (Some body))
              \<and> (\<exists>h. new_headers db (db_after (A drv active getdate pool db (Some body))) = [h]
                    \<and> O_NOME h = nome_pedido c \<and> O_NOMEUSUARIO h = ''INTEGRACAO''
                    \<and> new_headers db (db_after (B drv active getdate pool db (Some body)))
                        = [h\<lparr>O_NOME := nome_pedido_agente c, O_NOMEUSUARIO := ''SITE''\<rparr>]))
     \<and> (status (reply (A drv active getdate pool db (Some body))) \<noteq> 200
          \<longrightarrow> status (reply (A drv active getdate pool db (Some body))) = 422
              \<and> status (reply (B drv active getdate pool db (Some body))) = 500
              \<and> db_after (A drv active getdate pool db (Some body)) = db
              \<and> db_after (B drv active getdate pool db (Some body)) = db)"
proof (cases "snd (pedido_tx drv getdate db c (i # rest))")
  case (Inl err)
  with pedido_tx_variants [OF assms(4) assms(5), of drv getdate db]
  obtain e where "snd (pedido_tx_agente drv getdate db body) = Inl e"
    by auto
  with Inl assms(3-5) show ?thesis
    by (cases "pedido_tx drv getdate db c (i # rest)"; cases "pedido_tx_agente drv getdate db body")
       (auto simp: A_def B_def criar_pedido_def criar_pedido_agente_def)
next
  case (Inr ok)
  obtain db' novoId where ok: "ok = (db', novoId)" by (cases ok)
  with Inr pedido_tx_variants [OF assms(4) assms(5), of drv getdate db]
  obtain db'' h where
    b: "snd (pedido_tx_agente drv getdate db body) = Inr (db'', novoId)"
    and r: "ORCPERSONI db'' = ORCPERSONI db'" "PRODUTOS db'' = PRODUTOS db'"
      "PRODLOJAS db'' = PRODLOJAS db'"
      "map without_names (ORCPERSON db'') = map without_names (ORCPERSON db')"
    and h: "new_headers db db' = [h]" "O_NOME h = nome_pedido c"
      "O_NOMEUSUARIO h = ''INTEGRACAO''"
      "new_headers db db'' = [h\<lparr>O_NOME := nome_pedido_agente c, O_NOMEUSUARIO := ''SITE''\<rparr>]"
    by auto
  from Inr ok b r h assms(3-5) show ?thesis
    by (cases "pedido_tx drv getdate db c (i # rest)"; cases "pedido_tx_agente drv getdate db body")
       (auto simp: A_def B_def criar_pedido_def criar_pedido_agente_def)
qed

lemma pedido_sku_desconhecido_status:
  "reply (criar_pedido drv_exemplo False relogio (Some True) loja (Some pedido_sku_desconhecido))
     = Reply 422 (Erro (''N'' @ [CHR 0xE3] @ ''o foi poss'' @ [CHR 0xED] @ ''vel processar o pedido'')
                    (Some (Error (nao_encontrado ''000''))))
   \<and> reply (criar_pedido_agente drv_exemplo False relogio (Some True) loja
              (Some pedido_sku_desconhecido))
     = Reply 500 (Erro ''Erro ao gravar pedido'' (Some (Error (nao_encontrado_agente ''000''))))"
  by (simp add: criar_pedido_def pedido_tx_def criar_pedido_agente_def pedido_tx_agente_def
      pedido_sku_desconhecido_def loja_def pool_ready_def)

theorem variants_on_valid_request_witness:
  "pool_ready (Some True) \<and> cliente pedido_bom = Some \<lparr>nome = Some ''Joao''\<rparr>
   \<and> itens pedido_bom =
       Some (\<lparr>sku = ''789'', qtd = 2, preco = 10\<rparr> # [\<lparr>sku = ''456'', qtd = 1, preco = 7\<rparr>])
   \<and> ORCPERSONI (db_after (criar_pedido drv_exemplo False relogio (Some True) loja (Some pedido_bom)))
       = ORCPERSONI
           (db_after (criar_pedido_agente drv_exemplo False relogio (Some True) loja
                        (Some pedido_bom)))
   \<and> map without_names
        (ORCPERSON (db_after (criar_pedido drv_exemplo False relogio (Some True) loja
                                (Some pedido_bom))))
       = map without_names
           (ORCPERSON (db_after (criar_pedido_agente drv_exemplo False relogio (Some True) loja
                                   (Some pedido_bom))))
   \<and> status (reply (criar_pedido drv_exemplo False relogio (Some True) loja (Some pedido_bom)))
       = 200
   \<and> reply (criar_pedido drv_exemplo False relogio (Some True) loja (Some pedido_bom))
       = reply (criar_pedido_agente drv_exemplo False relogio (Some True) loja (Some pedido_bom))
   \<and> cliente pedido_sku_desconhecido = Some \<lparr>nome = Some ''Joao''\<rparr>
   \<and> itens pedido_sku_desconhecido =
       Some (\<lparr>sku = ''789'', qtd = 2, preco = 10\<rparr> # [\<lparr>sku = ''000'', qtd = 1, preco = 7\<rparr>])
   \<and> status (reply (criar_pedido drv_exemplo False relogio (Some True) loja
                      (Some pedido_sku_desconhecido))) \<noteq> 200
   \<and> status (reply (criar_pedido_agente drv_exemplo False relogio (Some True) loja
                      (Some pedido_sku_desconhecido))) = 500
   \<and> db_after (criar_pedido drv_exemplo False relogio (Some True) loja
                 (Some pedido_sku_desconhecido)) = loja
   \<and> db_after (criar_pedido_agente drv_exemplo False relogio (Some True) loja
                 (Some pedido_sku_desconhecido)) = loja"
  using variants_on_valid_request
      [of "Some True" pedido_bom "\<lparr>nome = Some ''Joao''\<rparr>" "\<lparr>sku = ''789'', qtd = 2, preco = 10\<rparr>"
          "[\<lparr>sku = ''456'', qtd = 1, preco = 7\<rparr>]" drv_exemplo False relogio loja]
    variants_on_valid_request
      [of "Some True" pedido_sku_desconhecido "\<lparr>nome = Some ''Joao''\<rparr>"
          "\<lparr>sku = ''789'', qtd = 2, preco = 10\<rparr>" "[\<lparr>sku = ''000'', qtd = 1, preco = 7\<rparr>]"
          drv_exemplo False relogio loja]
  by (simp add: pedido_bom_part000 pedido_bom_agente pedido_sku_desconhecido_status)
     (simp add: pedido_bom_def pedido_sku_desconhecido_def pool_ready_def)

text \<open>
  The claim as stated fails: the example order is committed by both variants with
  different header rows (the column \<^verbatim>\<open>NOMEUSUARIO\<close>), and the order with an unknown sku
  is answered with different statuses.
\<close>

theorem variants_differ:
  "map O_NOMEUSUARIO
      (new_headers loja
         (db_after (criar_pedido drv_exemplo False relogio (Some True) loja (Some pedido_bom))))
     = [''INTEGRACAO'']
   \<and> map O_NOMEUSUARIO
      (new_headers loja
         (db_after (criar_pedido_agente drv_exemplo False relogio (Some True) loja
                      (Some pedido_bom))))
     = [''SITE'']
   \<and> db_after (criar_pedido drv_exemplo False relogio (Some True) loja (Some pedido_bom))
       \<noteq> db_after (criar_pedido_agente drv_exemplo False relogio (Some True) loja (Some pedido_bom))
   \<and> status (reply (criar_pedido drv_exemplo False relogio (Some True) loja
                      (Some pedido_sku_desconhecido))) = 422
   \<and> status (reply (criar_pedido_agente drv_exemplo False relogio (Some True) loja
                      (Some pedido_sku_desconhecido))) = 500"
proof -
  have "db_after (criar_pedido drv_exemplo False relogio (Some True) loja (Some pedido_bom))
       \<noteq> db_after (criar_pedido_agente drv_exemplo False relogio (Some True) loja (Some pedido_bom))"
  proof
    assume "db_after (criar_pedido drv_exemplo False relogio (Some True) loja (Some pedido_bom))
       = db_after (criar_pedido_agente drv_exemplo False relogio (Some True) loja (Some pedido_bom))"
    then have "map O_NOMEUSUARIO
        (new_headers loja
           (db_after (criar_pedido drv_exemplo False relogio (Some True) loja (Some pedido_bom))))
      = map O_NOMEUSUARIO
        (new_headers loja
           (db_after (criar_pedido_agente drv_exemplo False relogio (Some True) loja
                        (Some pedido_bom))))"
      by simp
    then show False by (simp add: pedido_bom_part000 pedido_bom_agente)
  qed
  then show ?thesis
    by (simp add: pedido_bom_part000 pedido_bom_agente pedido_sku_desconhecido_status)
qed

end
